theory Spec2Isabelle
  imports Complex_Main "HOL-Library.AList" "HOL-Library.Char_ord" "HOL-Library.List_Lexorder"
    "HOL-Library.Multiset"
begin

section \<open>Values of the provider payloads\<close>

text \<open>
  The fields of the provider's JSON records are null, numbers or strings. A number is
  modelled by its exact value: Python's \<open>int\<close> and \<open>float\<close> agree on \<open>==\<close>, on
  hashing and on \<open>< > abs\<close> for equal values, and the thresholds of the code are far from
  the range where a double rounds. \<open>PNaN\<close> is the float NaN, which
  \<open>pd.to_numeric(..., errors='coerce')\<close> produces; infinities are not modelled.
\<close>

datatype pyval = PNone | PNum rat | PNaN | PStr string

text \<open>A Python \<open>dict\<close> with string keys, in insertion order.\<close>

type_synonym pydict = "(string \<times> pyval) list"

datatype error = AttributeError | TypeError | KeyError | UnorderedKeys

text \<open>\<open>bool(v)\<close>: None, zero and the empty string are false; NaN is true.\<close>

fun truthy :: "pyval \<Rightarrow> bool" where
  "truthy PNone = False"
| "truthy (PNum r) = (r \<noteq> 0)"
| "truthy PNaN = True"
| "truthy (PStr s) = (s \<noteq> [])"

text \<open>\<open>a or b\<close>.\<close>

definition py_or :: "pyval \<Rightarrow> pyval \<Rightarrow> pyval" where
  "py_or a b = (if truthy a then a else b)"

text \<open>\<open>d.get(k)\<close> and \<open>d.get(k, dflt)\<close>.\<close>

definition dget :: "pydict \<Rightarrow> string \<Rightarrow> pyval" where
  "dget d k = (case map_of d k of None \<Rightarrow> PNone | Some v \<Rightarrow> v)"

definition dict_get :: "pydict \<Rightarrow> string \<Rightarrow> pyval \<Rightarrow> pyval" where
  "dict_get d k dflt = (case map_of d k of None \<Rightarrow> dflt | Some v \<Rightarrow> v)"

text \<open>
  \<open>pd.to_numeric(v, errors='coerce')\<close> on a scalar: a number is returned as it is, None
  and every string that does not convert become NaN. The conversion of a string is
  pandas' own; it is the parameter \<open>parse\<close> (\<open>None\<close> where the string does not convert).
\<close>

fun to_numeric :: "(string \<Rightarrow> rat option) \<Rightarrow> pyval \<Rightarrow> pyval" where
  "to_numeric parse (PNum r) = PNum r"
| "to_numeric parse PNaN = PNaN"
| "to_numeric parse PNone = PNaN"
| "to_numeric parse (PStr s) = (case parse s of None \<Rightarrow> PNaN | Some r \<Rightarrow> PNum r)"

text \<open>
  The normalizer, as every call site writes it:
  \<open>pd.to_numeric(d.get(k, dflt), errors='coerce') or dflt\<close>.
\<close>

definition numeric_field :: "(string \<Rightarrow> rat option) \<Rightarrow> pydict \<Rightarrow> string \<Rightarrow> rat \<Rightarrow> pyval" where
  "numeric_field parse d k dflt = py_or (to_numeric parse (dict_get d k (PNum dflt))) (PNum dflt)"

text \<open>The number a field value stands for, where it has one.\<close>

fun parsed :: "(string \<Rightarrow> rat option) \<Rightarrow> pyval \<Rightarrow> rat option" where
  "parsed parse (PNum r) = Some r"
| "parsed parse (PStr s) = parse s"
| "parsed parse PNone = None"
| "parsed parse PNaN = None"

text \<open>
  A conversion for the concrete instances below: unsigned decimal digit strings. The
  theorems hold for every conversion.
\<close>

definition digit_val :: "char \<Rightarrow> rat option" where
  "digit_val c =
     map_of [(CHR ''0'', 0), (CHR ''1'', 1), (CHR ''2'', 2), (CHR ''3'', 3), (CHR ''4'', 4),
             (CHR ''5'', 5), (CHR ''6'', 6), (CHR ''7'', 7), (CHR ''8'', 8), (CHR ''9'', 9)] c"

fun parse_digits_acc :: "rat \<Rightarrow> string \<Rightarrow> rat option" where
  "parse_digits_acc acc [] = Some acc"
| "parse_digits_acc acc (c # cs) =
     (case digit_val c of None \<Rightarrow> None | Some d \<Rightarrow> parse_digits_acc (10 * acc + d) cs)"

definition parse_digits :: "string \<Rightarrow> rat option" where
  "parse_digits s = (if s = [] then None else parse_digits_acc 0 s)"

section \<open>The option chain and the lookup table\<close>

text \<open>
  A row of \<open>oc_json['filtered']['data']\<close>: its strike (\<open>PNone\<close> when absent or null)
  and its \<open>CE\<close> and \<open>PE\<close> entries, \<open>None\<close> where the entry is not a dict.
\<close>

record chain_row =
  row_strikePrice :: pyval
  row_CE :: "pydict option"
  row_PE :: "pydict option"

text \<open>The dict \<open>alert_ce_opt\<close> / \<open>alert_pe_opt\<close> of lines 373 to 398.\<close>

definition alert_opt :: "(string \<Rightarrow> rat option) \<Rightarrow> pyval \<Rightarrow> string \<Rightarrow> pyval \<Rightarrow> pydict \<Rightarrow> pydict" where
  "alert_opt parse strike typ expiry d =
     [(''strikePrice'', strike),
      (''optionType'', PStr typ),
      (''expiryDate'', expiry),
      (''OI'', numeric_field parse d ''openInterest'' 0),
      (''COI'', numeric_field parse d ''changeinOpenInterest'' 0),
      (''TBQ'', numeric_field parse d ''totalBuyQuantity'' 0),
      (''TSQ'', numeric_field parse d ''totalSellQuantity'' 0),
      (''pchange'', numeric_field parse d ''pChange'' 0),
      (''lastPrice'', numeric_field parse d ''lastPrice'' 0)]"

text \<open>
  One turn of the loop over the chain rows (lines 335 to 399): what it appends to
  \<open>all_options_for_alerts\<close>. \<open>nearest\<close> is \<open>nearest_expiry_display_format\<close>.
\<close>

definition row_opts :: "(string \<Rightarrow> rat option) \<Rightarrow> pyval \<Rightarrow> chain_row \<Rightarrow> pydict list" where
  "row_opts parse nearest r =
     (let strike = row_strikePrice r in
      if strike = PNone then []
      else
        let ce_data = (case row_CE r of None \<Rightarrow> [] | Some d \<Rightarrow> d);
            pe_data = (case row_PE r of None \<Rightarrow> [] | Some d \<Rightarrow> d);
            current_expiry_for_option =
              py_or (py_or (dget ce_data ''expiryDate'') (dget pe_data ''expiryDate'')) nearest
        in (if ce_data \<noteq> [] then [alert_opt parse strike ''CE'' current_expiry_for_option ce_data] else []) @
           (if pe_data \<noteq> [] then [alert_opt parse strike ''PE'' current_expiry_for_option pe_data] else []))"

definition all_options_for_alerts :: "(string \<Rightarrow> rat option) \<Rightarrow> pyval \<Rightarrow> chain_row list \<Rightarrow> pydict list" where
  "all_options_for_alerts parse nearest rows = concat (map (row_opts parse nearest) rows)"

text \<open>
  The lookup table: a dict from \<open>(strikePrice, expiryDate)\<close> to a dict from the side to
  the detail dict. Keys compare as Python's \<open>==\<close> on null, numbers and strings does.
\<close>

type_synonym ocmap = "((pyval \<times> pyval) \<times> (string \<times> pydict) list) list"

text \<open>
  The detail stored for an alert dict (lines 418 to 427). The subscripts \<open>opt['OI']\<close> ...
  cannot fail: every \<open>opt\<close> is an \<open>alert_opt\<close>, which has these keys. The alert dict has no
  key \<open>volume\<close>, so \<open>opt.get('volume', 0)\<close> is read as the source writes it.
\<close>

definition detail_of :: "pydict \<Rightarrow> pydict" where
  "detail_of opt =
     [(''openInterest'', dget opt ''OI''),
      (''changeinOpenInterest'', dget opt ''COI''),
      (''totalBuyQuantity'', dget opt ''TBQ''),
      (''totalSellQuantity'', dget opt ''TSQ''),
      (''pChange'', dget opt ''pchange''),
      (''lastPrice'', dget opt ''lastPrice''),
      (''totalTradedVolume'', dict_get opt ''volume'' (PNum 0))]"

fun side_of :: "pyval \<Rightarrow> string option" where
  "side_of (PStr s) = (if s = ''CE'' \<or> s = ''PE'' then Some s else None)"
| "side_of PNone = None"
| "side_of (PNum r) = None"
| "side_of PNaN = None"

definition add_detail :: "ocmap \<Rightarrow> pydict \<Rightarrow> ocmap" where
  "add_detail m opt =
     (let sp = dget opt ''strikePrice'';
          exp_date = dget opt ''expiryDate''
      in case side_of (dget opt ''optionType'') of
           None \<Rightarrow> m
         | Some opt_type_char \<Rightarrow>
             if sp \<noteq> PNone \<and> truthy exp_date
             then let key = (sp, exp_date);
                      inner = (case map_of m key of None \<Rightarrow> [] | Some i \<Rightarrow> i)
                  in AList.update key (AList.update opt_type_char (detail_of opt) inner) m
             else m)"

definition oc_details_map :: "pydict list \<Rightarrow> ocmap" where
  "oc_details_map opts = foldl add_detail [] opts"

section \<open>The merger\<close>

text \<open>
  \<open>s.replace(old, new)\<close> for a non-empty \<open>old\<close>: the occurrences are replaced from the
  left, without overlap. The source calls it with \<open>'Call'\<close>, \<open>'Put'\<close> and \<open>'Index'\<close> only.
\<close>

fun str_replace :: "string \<Rightarrow> string \<Rightarrow> string \<Rightarrow> string" where
  "str_replace old new [] = []"
| "str_replace old new (c # cs) =
     (if old \<noteq> [] \<and> take (length old) (c # cs) = old
      then new @ str_replace old new (drop (length old) (c # cs))
      else c # str_replace old new cs)"

definition translate_type :: "string \<Rightarrow> string" where
  "translate_type s =
     str_replace ''Index'' ''XX'' (str_replace ''Put'' ''PE'' (str_replace ''Call'' ''CE'' s))"

text \<open>\<open>d.update({k1: v1, ...})\<close>: the keys are set in the order of the literal.\<close>

definition dict_update :: "pydict \<Rightarrow> pydict \<Rightarrow> pydict" where
  "dict_update d kvs = foldl (\<lambda>acc kv. AList.update (fst kv) (snd kv) acc) d kvs"

text \<open>Line 437: the side under which the lookup table is read.\<close>

definition oc_type_key :: "pyval \<Rightarrow> string option" where
  "oc_type_key opt_type_raw =
     (if opt_type_raw = PStr ''Call'' then Some ''CE''
      else if opt_type_raw = PStr ''Put'' then Some ''PE'' else None)"

text \<open>Line 442: the expiry under which the lookup table is read.\<close>

definition lookup_expiry :: "pyval \<Rightarrow> pydict \<Rightarrow> pyval" where
  "lookup_expiry nearest contract =
     (let contract_expiry = dget contract ''expiryDate''
      in if truthy contract_expiry then contract_expiry else nearest)"

text \<open>Lines 444 to 448: the detail a summary record matches, if any.\<close>

definition lookup_detail :: "ocmap \<Rightarrow> pyval \<Rightarrow> pydict \<Rightarrow> pydict option" where
  "lookup_detail m nearest contract =
     (let sp = dget contract ''strikePrice''
      in case oc_type_key (dget contract ''optionType'') of
           None \<Rightarrow> None
         | Some t \<Rightarrow>
             if sp \<noteq> PNone \<and> truthy (lookup_expiry nearest contract)
             then (case map_of m (sp, lookup_expiry nearest contract) of
                     None \<Rightarrow> None
                   | Some inner \<Rightarrow> map_of inner t)
             else None)"

text \<open>Lines 449 to 457: the fields taken from the matched detail.\<close>

definition override_items :: "(string \<Rightarrow> rat option) \<Rightarrow> pydict \<Rightarrow> pydict" where
  "override_items parse detail =
     [(''OI'', numeric_field parse detail ''openInterest'' 0),
      (''COI'', numeric_field parse detail ''changeinOpenInterest'' 0),
      (''TBQ'', numeric_field parse detail ''totalBuyQuantity'' 0),
      (''TSQ'', numeric_field parse detail ''totalSellQuantity'' 0),
      (''pchange'', numeric_field parse detail ''pChange'' 0),
      (''lastPrice'', numeric_field parse detail ''lastPrice'' 0),
      (''volume'', numeric_field parse detail ''totalTradedVolume'' 0)]"

definition override :: "(string \<Rightarrow> rat option) \<Rightarrow> pydict \<Rightarrow> pydict \<Rightarrow> pydict" where
  "override parse detail merged_contract =
     dict_update merged_contract (override_items parse detail)"

text \<open>\<open>'-' if v == 0 else v\<close>.\<close>

definition display :: "pyval \<Rightarrow> pyval" where
  "display v = (if v = PNum 0 then PStr ''-'' else v)"

text \<open>Lines 460 to 475, after \<open>optionType\<close> has been set.\<close>

definition finish :: "(string \<Rightarrow> rat option) \<Rightarrow> pyval \<Rightarrow> pydict \<Rightarrow> pydict" where
  "finish parse nearest m0 =
     (let m1 = AList.update ''lastPrice'' (numeric_field parse m0 ''lastPrice'' (1/20)) m0;
          m2 = AList.update ''volume'' (numeric_field parse m1 ''volume'' 0) m1;
          m3 = AList.update ''value'' (dict_get m2 ''value'' (PStr ''-'')) m2;
          m4 = AList.update ''pchange'' (numeric_field parse m3 ''pchange'' 0) m3;
          display_oi = dict_get m4 ''OI'' (PNum 0);
          display_coi = dict_get m4 ''COI'' (PNum 0);
          display_volume = dict_get m4 ''volume'' (PNum 0);
          m5 = AList.update ''OI_display'' (display display_oi) m4;
          m6 = AList.update ''COI_display'' (display display_coi) m5;
          m7 = AList.update ''volume_display'' (display display_volume) m6
      in AList.update ''expiryDate''
           (dict_get m7 ''expiryDate'' (if truthy nearest then nearest else PStr ''N/A'')) m7)"

text \<open>
  One turn of the loop of \<open>enrich_contracts\<close>. \<open>opt_type_raw.replace\<close> exists on a
  string only: on None or a number line 459 raises AttributeError.
\<close>

definition enrich_one :: "(string \<Rightarrow> rat option) \<Rightarrow> ocmap \<Rightarrow> pyval \<Rightarrow> pydict \<Rightarrow> error + pydict" where
  "enrich_one parse m nearest contract =
     (let opt_type_raw = dget contract ''optionType'';
          merged_contract =
            (case lookup_detail m nearest contract of
               None \<Rightarrow> contract
             | Some detail \<Rightarrow> override parse detail contract)
      in case opt_type_raw of
           PStr s \<Rightarrow>
             Inr (finish parse nearest
                    (AList.update ''optionType'' (PStr (translate_type s)) merged_contract))
         | PNone \<Rightarrow> Inl AttributeError
         | PNum r \<Rightarrow> Inl AttributeError
         | PNaN \<Rightarrow> Inl AttributeError)"

fun enrich_contracts :: "(string \<Rightarrow> rat option) \<Rightarrow> ocmap \<Rightarrow> pyval \<Rightarrow> pydict list \<Rightarrow> error + pydict list" where
  "enrich_contracts parse m nearest [] = Inr []"
| "enrich_contracts parse m nearest (contract # rest) =
     (case enrich_one parse m nearest contract of
        Inl e \<Rightarrow> Inl e
      | Inr merged_contract \<Rightarrow>
          (case enrich_contracts parse m nearest rest of
             Inl e \<Rightarrow> Inl e
           | Inr enriched \<Rightarrow> Inr (merged_contract # enriched)))"

section \<open>Concrete payloads\<close>

text \<open>
  The chain of the specification's example: strike 21000 with a call side
  \<open>{openInterest: 120000, changeinOpenInterest: 15000, pChange: 5}\<close>, and three summary
  records: an active call at strike 21000 with no OI field, a put at a strike the chain
  does not list, and a call without a strike price.
\<close>

definition example_nearest :: pyval where
  "example_nearest = PStr ''26-Dec-2024''"

definition example_chain :: "chain_row list" where
  "example_chain =
     [\<lparr>row_strikePrice = PNum 21000,
       row_CE = Some [(''openInterest'', PNum 120000), (''changeinOpenInterest'', PNum 15000),
                      (''pChange'', PNum 5)],
       row_PE = None\<rparr>]"

definition example_table :: ocmap where
  "example_table = oc_details_map (all_options_for_alerts parse_digits example_nearest example_chain)"

definition example_call :: pydict where
  "example_call = [(''strikePrice'', PNum 21000), (''optionType'', PStr ''Call'')]"

definition example_put :: pydict where
  "example_put = [(''strikePrice'', PNum 21500), (''optionType'', PStr ''Put''), (''OI'', PNum 999)]"

definition example_no_strike :: pydict where
  "example_no_strike = [(''optionType'', PStr ''Call''), (''lastPrice'', PNum 12)]"

text \<open>
  A chain with a second strike at a later expiry, whose fields come as strings, and
  summary records that carry an expiry of their own: one that matches the later expiry,
  one at strike 21000 whose own expiry the chain does not list, and a put at a strike the
  chain does not list.
\<close>

definition far_expiry :: pyval where
  "far_expiry = PStr ''30-Jan-2025''"

definition expiry_chain :: "chain_row list" where
  "expiry_chain =
     [\<lparr>row_strikePrice = PNum 21000,
       row_CE = Some [(''openInterest'', PNum 120000), (''changeinOpenInterest'', PNum 15000),
                      (''pChange'', PNum 5)],
       row_PE = None\<rparr>,
      \<lparr>row_strikePrice = PNum 21100,
       row_CE = Some [(''expiryDate'', far_expiry), (''openInterest'', PStr ''95000''),
                      (''lastPrice'', PNum 42), (''pChange'', PStr ''3'')],
       row_PE = None\<rparr>]"

definition expiry_table :: ocmap where
  "expiry_table = oc_details_map (all_options_for_alerts parse_digits example_nearest expiry_chain)"

definition far_call :: pydict where
  "far_call = [(''strikePrice'', PNum 21100), (''optionType'', PStr ''Call''),
               (''expiryDate'', far_expiry)]"

definition wrong_expiry_call :: pydict where
  "wrong_expiry_call = [(''strikePrice'', PNum 21000), (''optionType'', PStr ''Call''),
                        (''expiryDate'', far_expiry), (''OI'', PNum 111)]"

definition unlisted_put :: pydict where
  "unlisted_put = [(''strikePrice'', PNum 21500), (''optionType'', PStr ''Put''),
                   (''OI'', PNum 999), (''pchange'', PStr ''7'')]"

text \<open>
  A chain row that carries a traded volume, and a summary of the same contract with a
  volume of its own.
\<close>

definition volume_chain :: "chain_row list" where
  "volume_chain =
     [\<lparr>row_strikePrice = PNum 21000,
       row_CE = Some [(''openInterest'', PNum 120000), (''totalTradedVolume'', PNum 5000)],
       row_PE = None\<rparr>]"

definition volume_call :: pydict where
  "volume_call = [(''strikePrice'', PNum 21000), (''optionType'', PStr ''Call''), (''volume'', PNum 777)]"

fun is_str :: "pyval \<Rightarrow> bool" where
  "is_str (PStr s) = True"
| "is_str PNone = False"
| "is_str (PNum r) = False"
| "is_str PNaN = False"

fun is_num :: "pyval \<Rightarrow> bool" where
  "is_num (PNum r) = True"
| "is_num PNone = False"
| "is_num PNaN = False"
| "is_num (PStr s) = False"

section \<open>Ranking\<close>

fun num_of :: "pyval \<Rightarrow> rat" where
  "num_of (PNum r) = r"
| "num_of PNone = 0"
| "num_of PNaN = 0"
| "num_of (PStr s) = 0"

fun str_of :: "pyval \<Rightarrow> string" where
  "str_of (PStr s) = s"
| "str_of PNone = []"
| "str_of PNaN = []"
| "str_of (PNum r) = []"

text \<open>
  The comparison \<open>a < b\<close> of two keys that are numbers or NaN: every comparison with NaN
  is false.
\<close>

fun py_lt :: "pyval \<Rightarrow> pyval \<Rightarrow> bool" where
  "py_lt (PNum a) (PNum b) = (a < b)"
| "py_lt (PNum a) PNaN = False"
| "py_lt (PNum a) PNone = False"
| "py_lt (PNum a) (PStr s) = False"
| "py_lt PNaN b = False"
| "py_lt PNone b = False"
| "py_lt (PStr s) b = False"

text \<open>No element of the list is smaller than the element before it.\<close>

fun no_descent :: "('a \<Rightarrow> pyval) \<Rightarrow> 'a list \<Rightarrow> bool" where
  "no_descent key [] = True"
| "no_descent key [x] = True"
| "no_descent key (x # y # zs) = (\<not> py_lt (key y) (key x) \<and> no_descent key (y # zs))"

text \<open>
  \<open>sorted(xs, key=f)\<close>: a stable sort that compares keys with \<open><\<close>. A list of fewer
  than two elements is returned without a comparison. When all keys are numbers, or all
  are strings, \<open><\<close> is a linear order and the result is the stable sort by the key
  (\<open>num_of\<close> and \<open>str_of\<close> are applied to such keys only). When a key is None, or numbers
  and strings meet, a comparison raises TypeError. When the keys are numbers and NaN,
  nothing raises, but \<open><\<close> is no order. The sort begins by taking the longest run from
  the left in which no element is smaller than the one before it; when that run is the
  whole list, the list is returned as it is. Otherwise the list returned depends on the
  further comparisons the algorithm makes, which the model does not follow: it answers
  \<open>UnorderedKeys\<close>, which is a mark of the model and no exception of the code.
\<close>

definition py_sorted :: "('a \<Rightarrow> pyval) \<Rightarrow> 'a list \<Rightarrow> error + 'a list" where
  "py_sorted key xs =
     (if length xs < 2 then Inr xs
      else if list_all (\<lambda>x. is_num (key x)) xs then Inr (sort_key (\<lambda>x. num_of (key x)) xs)
      else if list_all (\<lambda>x. is_str (key x)) xs then Inr (sort_key (\<lambda>x. str_of (key x)) xs)
      else if list_all (\<lambda>x. is_num (key x) \<or> key x = PNaN) xs
      then (if no_descent key xs then Inr xs else Inl UnorderedKeys)
      else Inl TypeError)"

text \<open>The key of lines 480 and 481: \<open>x.get('strikePrice', 0)\<close>.\<close>

definition strike_key :: "pydict \<Rightarrow> pyval" where
  "strike_key x = dict_get x ''strikePrice'' (PNum 0)"

definition calls_enriched :: "(string \<Rightarrow> rat option) \<Rightarrow> ocmap \<Rightarrow> pyval \<Rightarrow> pydict list \<Rightarrow> error + pydict list" where
  "calls_enriched parse m nearest mostActiveCall_raw =
     (case enrich_contracts parse m nearest mostActiveCall_raw of
        Inl e \<Rightarrow> Inl e
      | Inr enriched \<Rightarrow> py_sorted strike_key enriched)"

definition puts_enriched :: "(string \<Rightarrow> rat option) \<Rightarrow> ocmap \<Rightarrow> pyval \<Rightarrow> pydict list \<Rightarrow> error + pydict list" where
  "puts_enriched parse m nearest mostActivePut_raw =
     (case enrich_contracts parse m nearest mostActivePut_raw of
        Inl e \<Rightarrow> Inl e
      | Inr enriched \<Rightarrow> py_sorted strike_key enriched)"

text \<open>
  The key of line 490: \<open>-(pd.to_numeric(x.get('OI', 0), errors='coerce') or 0)\<close>. The
  normalizer returns a number or NaN, so the last two cases do not occur.
\<close>

definition oi_sort_key :: "(string \<Rightarrow> rat option) \<Rightarrow> pydict \<Rightarrow> pyval" where
  "oi_sort_key parse x =
     (case numeric_field parse x ''OI'' 0 of
        PNum r \<Rightarrow> PNum (- r)
      | PNaN \<Rightarrow> PNaN
      | PNone \<Rightarrow> PNone
      | PStr s \<Rightarrow> PStr s)"

definition is_index :: "pydict \<Rightarrow> bool" where
  "is_index c = (dget c ''optionType'' = PStr ''XX'')"

text \<open>Lines 483 to 494. A dict is true when it is not empty.\<close>

definition oi_sorted :: "(string \<Rightarrow> rat option) \<Rightarrow> ocmap \<Rightarrow> pyval \<Rightarrow> pydict list \<Rightarrow> error + pydict list" where
  "oi_sorted parse m nearest mostActiveOI_raw =
     (case enrich_contracts parse m nearest mostActiveOI_raw of
        Inl e \<Rightarrow> Inl e
      | Inr oi_enriched_temp \<Rightarrow>
          let index_contract = find is_index oi_enriched_temp;
              oi_contracts_only = filter (\<lambda>c. \<not> is_index c) oi_enriched_temp
          in case py_sorted (oi_sort_key parse) oi_contracts_only of
               Inl e \<Rightarrow> Inl e
             | Inr srt \<Rightarrow>
                 Inr (case index_contract of
                        None \<Rightarrow> srt
                      | Some c \<Rightarrow> if c \<noteq> [] then c # srt else srt))"

text \<open>The normalized open interest of an enriched record.\<close>

definition oi_value :: "(string \<Rightarrow> rat option) \<Rightarrow> pydict \<Rightarrow> rat" where
  "oi_value parse x = num_of (numeric_field parse x ''OI'' 0)"

text \<open>The strikes of the specification's ranking example, and an open-interest list.\<close>

definition example_calls :: "pydict list" where
  "example_calls =
     [[(''strikePrice'', PNum 21500), (''optionType'', PStr ''Call'')],
      [(''strikePrice'', PNum 21000), (''optionType'', PStr ''Call'')],
      [(''strikePrice'', PNum 21200), (''optionType'', PStr ''Call'')]]"

definition example_oi :: "pydict list" where
  "example_oi =
     [[(''strikePrice'', PNum 21300), (''optionType'', PStr ''Call''), (''OI'', PNum 500)],
      [(''optionType'', PStr ''Index''), (''OI'', PNum 7)],
      [(''strikePrice'', PNum 21400), (''optionType'', PStr ''Put''), (''OI'', PNum 900)]]"

text \<open>An open-interest list in which one record has a null \<open>OI\<close>.\<close>

definition null_oi :: "pydict list" where
  "null_oi =
     [[(''strikePrice'', PNum 21300), (''optionType'', PStr ''Call''), (''OI'', PNum 500)],
      [(''strikePrice'', PNum 21350), (''optionType'', PStr ''Call''), (''OI'', PNone)],
      [(''strikePrice'', PNum 21400), (''optionType'', PStr ''Put''), (''OI'', PNum 900)]]"

section \<open>The alert classifier\<close>

text \<open>
  A row of \<open>options_df\<close>, as \<open>iterrows\<close> yields it: the seven columns that
  \<open>generate_alerts\<close> reads. The frame is built from the alert dicts, so it has these
  columns whenever it has a row, and it is empty exactly when it has no row.
\<close>

record option_row =
  strikePrice :: pyval
  optionType :: pyval
  pchange :: pyval
  OI :: pyval
  COI :: pyval
  TBQ :: pyval
  TSQ :: pyval

text \<open>The dict \<open>alerts_data\<close>.\<close>

record alerts =
  fairValuation :: string
  marketBreadth :: string
  buyingInterest :: string
  momentum :: "string list"
  unwinding :: "string list"
  freshLongs :: "string list"
  buyerDominance :: "string list"
  sellerDominance :: "string list"

text \<open>
  A cell of a column after \<open>pd.to_numeric(column, errors='coerce').fillna(0)\<close>, and a
  statistic after \<open>if pd.isna(x): x = 0\<close>.
\<close>

definition numeric_col :: "(string \<Rightarrow> rat option) \<Rightarrow> pyval \<Rightarrow> rat" where
  "numeric_col parse v = (case to_numeric parse v of PNum r \<Rightarrow> r | PNaN \<Rightarrow> 0 | PNone \<Rightarrow> 0 | PStr s \<Rightarrow> 0)"

text \<open>
  \<open>df.empty\<close> for a frame given by its row dicts: no row, or no column.
\<close>

definition df_empty :: "pydict list \<Rightarrow> bool" where
  "df_empty df = list_all (\<lambda>r. r = []) df"

text \<open>
  Lines 145 to 155: the statistic \<open>k\<close> of the first row; a column that is absent gives
  the default series \<open>[0]\<close>.
\<close>

definition stat :: "(string \<Rightarrow> rat option) \<Rightarrow> pydict list \<Rightarrow> string \<Rightarrow> rat" where
  "stat parse valuation_df k =
     (case valuation_df of [] \<Rightarrow> 0 | row # rest \<Rightarrow> numeric_col parse (dict_get row k (PNum 0)))"

definition initial_alerts :: alerts where
  "initial_alerts =
     \<lparr>fairValuation = ''Valuation data unavailable.'',
      marketBreadth = ''Market breadth data unavailable.'',
      buyingInterest = ''Buying interest data unavailable.'',
      momentum = [], unwinding = [], freshLongs = [], buyerDominance = [],
      sellerDominance = []\<rparr>"

text \<open>Lines 143 to 184.\<close>

definition narratives :: "(string \<Rightarrow> rat option) \<Rightarrow> pydict list \<Rightarrow> alerts \<Rightarrow> alerts" where
  "narratives parse valuation_df alerts_data =
     (if df_empty valuation_df then alerts_data
      else
        let pe = stat parse valuation_df ''peRatio'';
            adv = stat parse valuation_df ''advance_symbol'';
            dec = stat parse valuation_df ''decline_symbol'';
            adv_turn = stat parse valuation_df ''advance_top_turnover'';
            dec_turn = stat parse valuation_df ''decline_top_turnover''
        in alerts_data
           \<lparr>fairValuation :=
              (if pe > 25 then ''PE ratio is high, suggesting overvaluation.''
               else if pe > 0 \<and> pe < 15 then ''PE ratio is low, suggesting undervaluation.''
               else if pe > 0 then ''PE ratio is within normal range.''
               else ''PE ratio data not available or invalid.''),
            marketBreadth :=
              (if adv + dec > 0
               then (if adv / (adv + dec) > 3/4
                     then ''Majority of stocks are advancing (Bullish sentiment).''
                     else if dec / (adv + dec) > 3/4
                     then ''Majority of stocks are declining (Bearish sentiment).''
                     else ''Mixed sentiment across market breadth.'')
               else ''Market breadth data not available.''),
            buyingInterest :=
              (if adv_turn + dec_turn > 0
               then (if adv_turn / (adv_turn + dec_turn) > 3/4
                     then ''Turnover concentrated in advancing stocks (Strong Buying Interest).''
                     else if dec_turn / (adv_turn + dec_turn) > 3/4
                     then ''Turnover concentrated in declining stocks (Strong Selling Interest).''
                     else ''Turnover is balanced across advancing and declining stocks.'')
               else ''Turnover data not available.'')\<rparr>)"

text \<open>
  \<open>if key not in seen: bucket.append(key); seen.add(key)\<close>. Each \<open>seen\<close> set holds
  exactly the keys of its bucket, so the test is read on the bucket.
\<close>

definition add_unique :: "string \<Rightarrow> string list \<Rightarrow> string list" where
  "add_unique key bucket = (if key \<in> set bucket then bucket else bucket @ [key])"

text \<open>
  The key \<open>f"{strike} {typ}"\<close>. How Python prints a value is the parameter \<open>fmt\<close>.
\<close>

definition alert_key :: "(pyval \<Rightarrow> string) \<Rightarrow> option_row \<Rightarrow> string" where
  "alert_key fmt opt = fmt (strikePrice opt) @ '' '' @ fmt (optionType opt)"

text \<open>One turn of the loop of lines 201 to 245.\<close>

definition alert_step :: "(string \<Rightarrow> rat option) \<Rightarrow> (pyval \<Rightarrow> string) \<Rightarrow> alerts \<Rightarrow> option_row \<Rightarrow> alerts" where
  "alert_step parse fmt alerts_data opt =
     (if strikePrice opt = PNone \<or> optionType opt = PNone then alerts_data
      else
        let pchange_val = numeric_col parse (pchange opt);
            oi = numeric_col parse (OI opt);
            coi = numeric_col parse (COI opt);
            tbq = numeric_col parse (TBQ opt);
            tsq = numeric_col parse (TSQ opt);
            key = alert_key fmt opt;
            a1 = (if \<bar>pchange_val\<bar> > 20
                  then alerts_data\<lparr>momentum := add_unique key (momentum alerts_data)\<rparr>
                  else alerts_data);
            a2 = (if oi > 50000 \<and> coi < - 10000
                  then a1\<lparr>unwinding := add_unique key (unwinding a1)\<rparr>
                  else if oi > 50000 \<and> coi > 10000
                  then a1\<lparr>freshLongs := add_unique key (freshLongs a1)\<rparr>
                  else a1)
        in (if tsq > 0 \<and> tbq > tsq * (3/2) \<and> tbq > 50000
            then a2\<lparr>buyerDominance := add_unique key (buyerDominance a2)\<rparr>
            else if tbq > 0 \<and> tsq > tbq * (3/2) \<and> tsq > 50000
            then a2\<lparr>sellerDominance := add_unique key (sellerDominance a2)\<rparr>
            else a2))"

text \<open>
  The rules of the loop, row by row: a row whose strike or type is None is passed over;
  \<open>freshLongs\<close> and \<open>sellerDominance\<close> are \<open>elif\<close> branches.
\<close>

definition momentum_rule :: "(string \<Rightarrow> rat option) \<Rightarrow> option_row \<Rightarrow> bool" where
  "momentum_rule parse opt =
     (strikePrice opt \<noteq> PNone \<and> optionType opt \<noteq> PNone \<and>
      \<bar>numeric_col parse (pchange opt)\<bar> > 20)"

definition unwinding_rule :: "(string \<Rightarrow> rat option) \<Rightarrow> option_row \<Rightarrow> bool" where
  "unwinding_rule parse opt =
     (strikePrice opt \<noteq> PNone \<and> optionType opt \<noteq> PNone \<and>
      numeric_col parse (OI opt) > 50000 \<and> numeric_col parse (COI opt) < - 10000)"

definition freshLongs_rule :: "(string \<Rightarrow> rat option) \<Rightarrow> option_row \<Rightarrow> bool" where
  "freshLongs_rule parse opt =
     (strikePrice opt \<noteq> PNone \<and> optionType opt \<noteq> PNone \<and>
      \<not> (numeric_col parse (OI opt) > 50000 \<and> numeric_col parse (COI opt) < - 10000) \<and>
      numeric_col parse (OI opt) > 50000 \<and> numeric_col parse (COI opt) > 10000)"

definition buyerDominance_rule :: "(string \<Rightarrow> rat option) \<Rightarrow> option_row \<Rightarrow> bool" where
  "buyerDominance_rule parse opt =
     (strikePrice opt \<noteq> PNone \<and> optionType opt \<noteq> PNone \<and>
      numeric_col parse (TSQ opt) > 0 \<and>
      numeric_col parse (TBQ opt) > numeric_col parse (TSQ opt) * (3/2) \<and>
      numeric_col parse (TBQ opt) > 50000)"

definition sellerDominance_rule :: "(string \<Rightarrow> rat option) \<Rightarrow> option_row \<Rightarrow> bool" where
  "sellerDominance_rule parse opt =
     (strikePrice opt \<noteq> PNone \<and> optionType opt \<noteq> PNone \<and>
      \<not> (numeric_col parse (TSQ opt) > 0 \<and>
         numeric_col parse (TBQ opt) > numeric_col parse (TSQ opt) * (3/2) \<and>
         numeric_col parse (TBQ opt) > 50000) \<and>
      numeric_col parse (TBQ opt) > 0 \<and>
      numeric_col parse (TSQ opt) > numeric_col parse (TBQ opt) * (3/2) \<and>
      numeric_col parse (TSQ opt) > 50000)"

text \<open>
  \<open>generate_alerts\<close>. No operation of it raises on frames of this shape, so it returns
  \<open>alerts_data\<close> for every input. \<open>sorted\<close> on strings is the sort by code points.
\<close>

definition generate_alerts :: "(string \<Rightarrow> rat option) \<Rightarrow> (pyval \<Rightarrow> string) \<Rightarrow> pydict list \<Rightarrow> option_row list \<Rightarrow> alerts" where
  "generate_alerts parse fmt valuation_df options_df =
     (let alerts_data = narratives parse valuation_df initial_alerts
      in if options_df = [] then alerts_data
         else
           let a = foldl (alert_step parse fmt) alerts_data options_df
           in a\<lparr>momentum := sort (momentum a),
                unwinding := sort (unwinding a),
                freshLongs := sort (freshLongs a),
                buyerDominance := sort (buyerDominance a),
                sellerDominance := sort (sellerDominance a)\<rparr>)"

text \<open>
  A formatter for the concrete instances: a string prints as it is, a number as the
  decimal digits of its integer part, which is what Python prints for an \<open>int\<close> strike.
  The theorems hold for every formatter.
\<close>

fun show_nat :: "nat \<Rightarrow> string" where
  "show_nat n =
     (if n < 10 then [''0123456789'' ! n] else show_nat (n div 10) @ [''0123456789'' ! (n mod 10)])"

fun format_value :: "pyval \<Rightarrow> string" where
  "format_value (PStr s) = s"
| "format_value PNone = ''None''"
| "format_value PNaN = ''nan''"
| "format_value (PNum r) =
     (if r < 0 then CHR ''-'' # show_nat (nat \<lfloor>- r\<rfloor>) else show_nat (nat \<lfloor>r\<rfloor>))"

text \<open>
  Two rows of the same strike and side (two expiries of one strike), one with a percent
  change of 25 and one with 5; and rows at the thresholds of the specification.
\<close>

definition row_fast :: option_row where
  "row_fast = \<lparr>strikePrice = PNum 21000, optionType = PStr ''CE'', pchange = PNum 25,
                OI = PNum 0, COI = PNum 0, TBQ = PNum 0, TSQ = PNum 0\<rparr>"

definition row_slow :: option_row where
  "row_slow = \<lparr>strikePrice = PNum 21000, optionType = PStr ''CE'', pchange = PNum 5,
                OI = PNum 0, COI = PNum 0, TBQ = PNum 0, TSQ = PNum 0\<rparr>"

definition row_unwinding :: option_row where
  "row_unwinding = \<lparr>strikePrice = PNum 21200, optionType = PStr ''PE'', pchange = PNum (- 25),
                     OI = PNum 60000, COI = PNum (- 12000), TBQ = PNum 90000, TSQ = PNum 40000\<rparr>"

definition stats_high_pe :: "pydict list" where
  "stats_high_pe = [[(''indexName'', PStr ''NIFTY 50''), (''peRatio'', PNum 30)]]"

section \<open>The merger on a store\<close>

text \<open>
  To speak about mutation, the dicts are objects in a store: \<open>heap\<close> holds the dict
  objects by address, and \<open>table\<close> is the lookup table \<open>oc_details_map\<close> that the closure
  \<open>enrich_contracts\<close> shares with its caller. The summary list is a list of addresses.
\<close>

record pstate =
  heap :: "pydict list"
  table :: ocmap

text \<open>\<open>dict(d)\<close>: a new object with the items of \<open>d\<close>.\<close>

definition alloc_dict :: "pydict \<Rightarrow> pstate \<Rightarrow> nat \<times> pstate" where
  "alloc_dict d s = (length (heap s), s\<lparr>heap := heap s @ [d]\<rparr>)"

text \<open>\<open>obj[k] = v\<close> and \<open>obj.update({...})\<close> on the object at address \<open>a\<close>.\<close>

definition set_item :: "nat \<Rightarrow> string \<Rightarrow> pyval \<Rightarrow> pstate \<Rightarrow> pstate" where
  "set_item a k v s = s\<lparr>heap := (heap s)[a := AList.update k v (heap s ! a)]\<rparr>"

definition update_items :: "nat \<Rightarrow> pydict \<Rightarrow> pstate \<Rightarrow> pstate" where
  "update_items a kvs s = s\<lparr>heap := (heap s)[a := dict_update (heap s ! a) kvs]\<rparr>"

text \<open>
  One turn of the loop of \<open>enrich_contracts\<close>, statement by statement, on the summary
  dict at address \<open>contract\<close>. Lines 439 to 457: the copy \<open>merged_contract\<close> is
  allocated and, on a match, updated.
\<close>

definition copy_and_override :: "(string \<Rightarrow> rat option) \<Rightarrow> pyval \<Rightarrow> nat \<Rightarrow> pstate \<Rightarrow> nat \<times> pstate" where
  "copy_and_override parse nearest contract s0 =
     (let alloc = alloc_dict (heap s0 ! contract) s0;
          merged_contract = fst alloc;
          s1 = snd alloc
      in case lookup_detail (table s1) nearest (heap s1 ! contract) of
           None \<Rightarrow> (merged_contract, s1)
         | Some detail \<Rightarrow>
             (merged_contract, update_items merged_contract (override_items parse detail) s1))"

text \<open>Lines 460 to 475: the assignments to \<open>merged_contract\<close>.\<close>

definition finish_st :: "(string \<Rightarrow> rat option) \<Rightarrow> pyval \<Rightarrow> nat \<Rightarrow> pstate \<Rightarrow> pstate" where
  "finish_st parse nearest merged_contract s3 =
     (let s4 = set_item merged_contract ''lastPrice''
                 (numeric_field parse (heap s3 ! merged_contract) ''lastPrice'' (1/20)) s3;
          s5 = set_item merged_contract ''volume''
                 (numeric_field parse (heap s4 ! merged_contract) ''volume'' 0) s4;
          s6 = set_item merged_contract ''value''
                 (dict_get (heap s5 ! merged_contract) ''value'' (PStr ''-'')) s5;
          s7 = set_item merged_contract ''pchange''
                 (numeric_field parse (heap s6 ! merged_contract) ''pchange'' 0) s6;
          display_oi = dict_get (heap s7 ! merged_contract) ''OI'' (PNum 0);
          display_coi = dict_get (heap s7 ! merged_contract) ''COI'' (PNum 0);
          display_volume = dict_get (heap s7 ! merged_contract) ''volume'' (PNum 0);
          s8 = set_item merged_contract ''OI_display'' (display display_oi) s7;
          s9 = set_item merged_contract ''COI_display'' (display display_coi) s8;
          s10 = set_item merged_contract ''volume_display'' (display display_volume) s9
      in set_item merged_contract ''expiryDate''
           (dict_get (heap s10 ! merged_contract) ''expiryDate''
              (if truthy nearest then nearest else PStr ''N/A'')) s10)"

text \<open>
  The turn returns the address of \<open>merged_contract\<close>, or the exception of line 459, and
  the store it leaves.
\<close>

definition enrich_one_st :: "(string \<Rightarrow> rat option) \<Rightarrow> pyval \<Rightarrow> nat \<Rightarrow> pstate \<Rightarrow> (error + nat) \<times> pstate" where
  "enrich_one_st parse nearest contract s0 =
     (let opt_type_raw = dget (heap s0 ! contract) ''optionType'';
          started = copy_and_override parse nearest contract s0;
          merged_contract = fst started;
          s2 = snd started
      in case opt_type_raw of
           PStr str \<Rightarrow>
             (Inr merged_contract,
              finish_st parse nearest merged_contract
                (set_item merged_contract ''optionType'' (PStr (translate_type str)) s2))
         | PNone \<Rightarrow> (Inl AttributeError, s2)
         | PNum r \<Rightarrow> (Inl AttributeError, s2)
         | PNaN \<Rightarrow> (Inl AttributeError, s2))"

fun enrich_contracts_st :: "(string \<Rightarrow> rat option) \<Rightarrow> pyval \<Rightarrow> nat list \<Rightarrow> pstate \<Rightarrow> (error + nat list) \<times> pstate" where
  "enrich_contracts_st parse nearest [] s = (Inr [], s)"
| "enrich_contracts_st parse nearest (contract # rest) s =
     (case enrich_one_st parse nearest contract s of
        (Inl e, s') \<Rightarrow> (Inl e, s')
      | (Inr merged_contract, s') \<Rightarrow>
          (case enrich_contracts_st parse nearest rest s' of
             (Inl e, s'') \<Rightarrow> (Inl e, s'')
           | (Inr enriched, s'') \<Rightarrow> (Inr (merged_contract # enriched), s'')))"

text \<open>A store with the two summary dicts of the example at the addresses 0 and 1.\<close>

definition example_state :: pstate where
  "example_state = \<lparr>heap = [example_call, example_put], table = example_table\<rparr>"

section \<open>The insider-disclosure assembler\<close>

text \<open>
  \<open>get_corporates_pit\<close> of \<open>stock_insiders.py\<close>, from the parsed payload on: \<open>acq\<close> is
  \<open>data.get("acqNameList", [])\<close> and \<open>records\<close> is \<open>data.get("data", [])\<close>. The values
  of the returned dicts are numbers, dicts and lists of dicts.
\<close>

datatype sval = SNum rat | SDict pydict | SRows "pydict list"

record pit_result =
  corporatesPIT :: "pydict list"
  acqNameList :: "pyval list"
  summary :: "(string \<times> sval) list"

text \<open>
  Lines 46 to 75 clean, sort and aggregate the frame with pandas. What they compute is
  the parameter \<open>analyse\<close>: the rows of the frame after cleaning and sorting, its first
  row, the two totals and the company summary, or the exception pandas raises (a column
  that an aggregation needs may be missing).
\<close>

record analysis =
  frame_rows :: "pydict list"
  first_row :: pydict
  buy_total :: rat
  sell_total :: rat
  company_summary :: sval

definition get_corporates_pit :: "(pydict list \<Rightarrow> error + analysis) \<Rightarrow> pyval list \<Rightarrow> pydict list \<Rightarrow> error + pit_result" where
  "get_corporates_pit analyse acq_name_list records =
     (if df_empty records
      then Inr \<lparr>corporatesPIT = [], acqNameList = acq_name_list,
                summary = [(''totalDisclosures'', SNum 0)]\<rparr>
      else case analyse records of
             Inl e \<Rightarrow> Inl e
           | Inr df \<Rightarrow>
               Inr \<lparr>corporatesPIT = frame_rows df, acqNameList = acq_name_list,
                    summary =
                      [(''latestDisclosure'', SDict (first_row df)),
                       (''totalDisclosures'', SNum (of_nat (length records))),
                       (''buyValueTotal'', SNum (buy_total df)),
                       (''sellValueTotal'', SNum (sell_total df)),
                       (''companySummary'', company_summary df)]\<rparr>)"

text \<open>
  A stand-in for the pandas computations, for the concrete instances: it keeps the rows
  as they are and totals nothing. The theorems hold for every \<open>analyse\<close>.
\<close>

definition sample_analyse :: "pydict list \<Rightarrow> error + analysis" where
  "sample_analyse records =
     (case records of
        [] \<Rightarrow> Inl KeyError
      | r # rs \<Rightarrow> Inr \<lparr>frame_rows = records, first_row = r, buy_total = 0, sell_total = 0,
                         company_summary = SDict []\<rparr>)"

definition sample_disclosure :: pydict where
  "sample_disclosure = [(''symbol'', PStr ''INFY''), (''secVal'', PNum 1000)]"

section \<open>The numeric normalizer\<close>

lemma to_numeric_parsed:
  "parsed parse v = Some r \<Longrightarrow> to_numeric parse v = PNum r"
  by (cases v) simp_all

lemma numeric_field_absent:
  "map_of d k = None \<Longrightarrow> numeric_field parse d k dflt = PNum dflt"
  by (simp add: numeric_field_def dict_get_def py_or_def)

lemma numeric_field_present:
  "map_of d k = Some v \<Longrightarrow> parsed parse v = Some r \<Longrightarrow>
   numeric_field parse d k dflt = PNum (if r = 0 then dflt else r)"
  by (simp add: numeric_field_def dict_get_def py_or_def to_numeric_parsed)

text \<open>
  Where the slip lies: a null field and a string that does not convert give NaN, which is
  true in Python, so \<open>or\<close> keeps it.
\<close>

lemma numeric_field_null:
  "map_of d k = Some v \<Longrightarrow> parsed parse v = None \<Longrightarrow> numeric_field parse d k dflt = PNaN"
  by (cases v) (simp_all add: numeric_field_def dict_get_def py_or_def)

text \<open>
  C1, as stated, fails: the field \<open>lastPrice = 0\<close> is a number, its parsed value is 0, and
  the normalizer with the minimum tick 0.05 as default (line 460) returns 0.05.
\<close>

theorem C1_zero_counterexample:
  "parsed parse_digits (PNum 0) = Some 0 \<and>
   numeric_field parse_digits [(''lastPrice'', PNum 0)] ''lastPrice'' (1/20) \<noteq> PNum 0"
  by (simp add: numeric_field_def dict_get_def py_or_def)

text \<open>
  C1, amended: a field that is a number or a string that converts, with a nonzero value,
  is normalized to that value; a field that is absent, or whose value is zero, is
  normalized to the default. The normalizer is a total function of null, number and
  string fields: it has no raising branch.
\<close>

theorem C1_normalizer:
  "(map_of d k = None \<longrightarrow> numeric_field parse d k dflt = PNum dflt) \<and>
   (\<forall>v r. map_of d k = Some v \<longrightarrow> parsed parse v = Some r \<longrightarrow>
      numeric_field parse d k dflt = PNum (if r = 0 then dflt else r))"
  by (simp add: numeric_field_absent numeric_field_present)

theorem C1_normalizer_witness:
  "numeric_field parse_digits [(''OI'', PStr ''120000'')] ''OI'' 0 = PNum 120000 \<and>
   numeric_field parse_digits [(''OI'', PStr ''120000'')] ''lastPrice'' (1/20) = PNum (1/20)"
proof -
  have a: "map_of [(''OI'', PStr ''120000'')] ''OI'' = Some (PStr ''120000'')" by simp
  have b: "parsed parse_digits (PStr ''120000'') = Some 120000"
    by (simp add: parse_digits_def digit_val_def)
  have c: "map_of [(''OI'', PStr ''120000'')] ''lastPrice'' = None" by simp
  from C1_normalizer [of "[(''OI'', PStr ''120000'')]" "''OI''" parse_digits 0]
  have "numeric_field parse_digits [(''OI'', PStr ''120000'')] ''OI'' 0 = PNum 120000"
    using a b by simp
  moreover from C1_normalizer [of "[(''OI'', PStr ''120000'')]" "''lastPrice''" parse_digits "1/20"]
  have "numeric_field parse_digits [(''OI'', PStr ''120000'')] ''lastPrice'' (1/20) = PNum (1/20)"
    using c by simp
  ultimately show ?thesis by simp
qed


section \<open>Facts about the merger\<close>

lemma numeric_field_cong:
  "map_of d k = map_of d' k \<Longrightarrow> numeric_field parse d k x = numeric_field parse d' k x"
  by (simp add: numeric_field_def dict_get_def)

lemma numeric_field_update_other:
  "k \<noteq> k' \<Longrightarrow> numeric_field parse (AList.update k' v d) k x = numeric_field parse d k x"
  by (simp add: numeric_field_def dict_get_def update_conv')

lemma dict_update_Cons:
  "dict_update d (kv # kvs) = dict_update (AList.update (fst kv) (snd kv) d) kvs"
  by (simp add: dict_update_def)

lemma dict_update_Nil: "dict_update d [] = d"
  by (simp add: dict_update_def)

lemma finish_other:
  "k \<notin> {''lastPrice'', ''volume'', ''value'', ''pchange'', ''OI_display'', ''COI_display'',
        ''volume_display'', ''expiryDate''} \<Longrightarrow>
   map_of (finish parse nearest m0) k = map_of m0 k"
  by (simp add: finish_def Let_def update_conv')

lemma finish_lastPrice:
  "map_of (finish parse nearest m0) ''lastPrice'' = Some (numeric_field parse m0 ''lastPrice'' (1/20))"
  by (simp add: finish_def Let_def update_conv')

lemma finish_pchange:
  "map_of (finish parse nearest m0) ''pchange'' = Some (numeric_field parse m0 ''pchange'' 0)"
  by (simp add: finish_def Let_def update_conv' numeric_field_update_other)

lemma finish_volume:
  "map_of (finish parse nearest m0) ''volume'' = Some (numeric_field parse m0 ''volume'' 0)"
  by (simp add: finish_def Let_def update_conv' numeric_field_update_other)

text \<open>Normalizing a normalized value again, under another default.\<close>

lemma py_or_zero_numeric: "py_or (to_numeric parse v) (PNum 0) = to_numeric parse v"
  by (cases v) (auto simp: py_or_def split: option.splits)

lemma to_numeric_idem: "to_numeric parse (to_numeric parse v) = to_numeric parse v"
  by (cases v) (auto split: option.splits)

lemma numeric_field_twice:
  "map_of d' k' = Some (numeric_field parse d k 0) \<Longrightarrow>
   numeric_field parse d' k' x = py_or (to_numeric parse (dict_get d k (PNum 0))) (PNum x)"
  by (simp add: numeric_field_def dict_get_def py_or_zero_numeric to_numeric_idem)

lemma numeric_field_default_irrelevant:
  "py_or (to_numeric parse (dict_get d k (PNum 0))) (PNum x) = numeric_field parse d k x"
  by (cases "map_of d k") (simp_all add: numeric_field_def dict_get_def py_or_def)

lemma override_fields:
  "map_of (override parse detail c) ''OI'' = Some (numeric_field parse detail ''openInterest'' 0)"
  "map_of (override parse detail c) ''COI'' = Some (numeric_field parse detail ''changeinOpenInterest'' 0)"
  "map_of (override parse detail c) ''TBQ'' = Some (numeric_field parse detail ''totalBuyQuantity'' 0)"
  "map_of (override parse detail c) ''TSQ'' = Some (numeric_field parse detail ''totalSellQuantity'' 0)"
  "map_of (override parse detail c) ''pchange'' = Some (numeric_field parse detail ''pChange'' 0)"
  "map_of (override parse detail c) ''lastPrice'' = Some (numeric_field parse detail ''lastPrice'' 0)"
  "map_of (override parse detail c) ''volume'' = Some (numeric_field parse detail ''totalTradedVolume'' 0)"
  by (simp_all add: override_def override_items_def dict_update_Cons dict_update_Nil update_conv')

lemma override_other:
  "k \<notin> {''OI'', ''COI'', ''TBQ'', ''TSQ'', ''pchange'', ''lastPrice'', ''volume''} \<Longrightarrow>
   map_of (override parse detail c) k = map_of c k"
  by (simp add: override_def override_items_def dict_update_Cons dict_update_Nil update_conv')

lemma enrich_one_str:
  "dget c ''optionType'' = PStr s \<Longrightarrow>
   enrich_one parse m nearest c =
     Inr (finish parse nearest (AList.update ''optionType'' (PStr (translate_type s))
       (case lookup_detail m nearest c of None \<Rightarrow> c | Some detail \<Rightarrow> override parse detail c)))"
  by (simp add: enrich_one_def)

lemma enrich_one_Inr_str:
  "enrich_one parse m nearest c = Inr mc \<Longrightarrow> \<exists>s. dget c ''optionType'' = PStr s"
  by (cases "dget c ''optionType''") (simp_all add: enrich_one_def)

text \<open>The slip of line 459: a record without \<open>optionType\<close> makes the merger raise.\<close>

lemma enrich_one_not_str:
  "\<not> is_str (dget c ''optionType'') \<Longrightarrow> enrich_one parse m nearest c = Inl AttributeError"
  by (cases "dget c ''optionType''") (simp_all add: enrich_one_def)

lemma enrich_one_match:
  assumes "enrich_one parse m nearest c = Inr mc" and "lookup_detail m nearest c = Some detail"
  shows "map_of mc ''OI'' = Some (numeric_field parse detail ''openInterest'' 0)"
    and "map_of mc ''COI'' = Some (numeric_field parse detail ''changeinOpenInterest'' 0)"
    and "map_of mc ''TBQ'' = Some (numeric_field parse detail ''totalBuyQuantity'' 0)"
    and "map_of mc ''TSQ'' = Some (numeric_field parse detail ''totalSellQuantity'' 0)"
    and "map_of mc ''pchange'' = Some (numeric_field parse detail ''pChange'' 0)"
    and "map_of mc ''lastPrice'' = Some (numeric_field parse detail ''lastPrice'' (1/20))"
    and "map_of mc ''volume'' = Some (numeric_field parse detail ''totalTradedVolume'' 0)"
proof -
  from assms(1) obtain s where s: "dget c ''optionType'' = PStr s"
    using enrich_one_Inr_str by blast
  define m0 where "m0 = AList.update ''optionType'' (PStr (translate_type s)) (override parse detail c)"
  have mc: "mc = finish parse nearest m0"
    using assms s by (simp add: enrich_one_str m0_def)
  have m0: "map_of m0 k = map_of (override parse detail c) k" if "k \<noteq> ''optionType''" for k
    using that by (simp add: m0_def update_conv')
  show "map_of mc ''OI'' = Some (numeric_field parse detail ''openInterest'' 0)"
    by (simp add: mc finish_other m0 override_fields)
  show "map_of mc ''COI'' = Some (numeric_field parse detail ''changeinOpenInterest'' 0)"
    by (simp add: mc finish_other m0 override_fields)
  show "map_of mc ''TBQ'' = Some (numeric_field parse detail ''totalBuyQuantity'' 0)"
    by (simp add: mc finish_other m0 override_fields)
  show "map_of mc ''TSQ'' = Some (numeric_field parse detail ''totalSellQuantity'' 0)"
    by (simp add: mc finish_other m0 override_fields)
  have "map_of m0 ''pchange'' = Some (numeric_field parse detail ''pChange'' 0)"
    by (simp add: m0 override_fields)
  then show "map_of mc ''pchange'' = Some (numeric_field parse detail ''pChange'' 0)"
    by (simp add: mc finish_pchange numeric_field_twice numeric_field_default_irrelevant)
  have "map_of m0 ''lastPrice'' = Some (numeric_field parse detail ''lastPrice'' 0)"
    by (simp add: m0 override_fields)
  then show "map_of mc ''lastPrice'' = Some (numeric_field parse detail ''lastPrice'' (1/20))"
    by (simp add: mc finish_lastPrice numeric_field_twice numeric_field_default_irrelevant)
  have "map_of m0 ''volume'' = Some (numeric_field parse detail ''totalTradedVolume'' 0)"
    by (simp add: m0 override_fields)
  then show "map_of mc ''volume'' = Some (numeric_field parse detail ''totalTradedVolume'' 0)"
    by (simp add: mc finish_volume numeric_field_twice numeric_field_default_irrelevant)
qed

lemma enrich_one_nomatch:
  assumes "enrich_one parse m nearest c = Inr mc" and "lookup_detail m nearest c = None"
  shows "map_of mc ''OI'' = map_of c ''OI''"
    and "map_of mc ''COI'' = map_of c ''COI''"
    and "map_of mc ''TBQ'' = map_of c ''TBQ''"
    and "map_of mc ''TSQ'' = map_of c ''TSQ''"
    and "map_of mc ''pchange'' = Some (numeric_field parse c ''pchange'' 0)"
    and "map_of mc ''lastPrice'' = Some (numeric_field parse c ''lastPrice'' (1/20))"
proof -
  from assms(1) obtain s where s: "dget c ''optionType'' = PStr s"
    using enrich_one_Inr_str by blast
  define m0 where "m0 = AList.update ''optionType'' (PStr (translate_type s)) c"
  have mc: "mc = finish parse nearest m0"
    using assms s by (simp add: enrich_one_str m0_def)
  have m0: "map_of m0 k = map_of c k" if "k \<noteq> ''optionType''" for k
    using that by (simp add: m0_def update_conv')
  show "map_of mc ''OI'' = map_of c ''OI''" by (simp add: mc finish_other m0)
  show "map_of mc ''COI'' = map_of c ''COI''" by (simp add: mc finish_other m0)
  show "map_of mc ''TBQ'' = map_of c ''TBQ''" by (simp add: mc finish_other m0)
  show "map_of mc ''TSQ'' = map_of c ''TSQ''" by (simp add: mc finish_other m0)
  have "numeric_field parse m0 ''pchange'' 0 = numeric_field parse c ''pchange'' 0"
    by (rule numeric_field_cong) (simp add: m0)
  then show "map_of mc ''pchange'' = Some (numeric_field parse c ''pchange'' 0)"
    by (simp add: mc finish_pchange)
  have "numeric_field parse m0 ''lastPrice'' (1/20) = numeric_field parse c ''lastPrice'' (1/20)"
    by (rule numeric_field_cong) (simp add: m0)
  then show "map_of mc ''lastPrice'' = Some (numeric_field parse c ''lastPrice'' (1/20))"
    by (simp add: mc finish_lastPrice)
qed

lemma enrich_contracts_nth:
  "enrich_contracts parse m nearest cs = Inr en \<Longrightarrow>
   length en = length cs \<and> (\<forall>i<length cs. enrich_one parse m nearest (cs ! i) = Inr (en ! i))"
proof (induction cs arbitrary: en)
  case Nil
  then show ?case by simp
next
  case (Cons c cs)
  then show ?case
    by (auto split: sum.splits simp: nth_Cons split: nat.splits)
qed

lemma lookup_detail_match:
  "oc_type_key (dget c ''optionType'') = Some t \<Longrightarrow> dget c ''strikePrice'' \<noteq> PNone \<Longrightarrow>
   truthy (lookup_expiry nearest c) \<Longrightarrow>
   map_of m (dget c ''strikePrice'', lookup_expiry nearest c) = Some inner \<Longrightarrow>
   map_of inner t = Some detail \<Longrightarrow> lookup_detail m nearest c = Some detail"
  by (simp add: lookup_detail_def)


lemma enrich_contracts_succeeds:
  "list_all (\<lambda>c. is_str (dget c ''optionType'')) cs \<Longrightarrow>
   \<exists>en. enrich_contracts parse m nearest cs = Inr en"
proof (induction cs)
  case Nil
  then show ?case by simp
next
  case (Cons c cs)
  then obtain s where "dget c ''optionType'' = PStr s"
    by (cases "dget c ''optionType''") simp_all
  with Cons show ?case
    by (auto simp: enrich_one_str)
qed


section \<open>Override and fallback\<close>

text \<open>
  The match of lines 437 to 448, written out: the side is CE for \<open>Call\<close> and PE for
  \<open>Put\<close>, the key is the strike with the record's own expiry, or with the nearest expiry
  when the record has none.
\<close>

lemma lookup_detail_hit:
  assumes "dget c ''optionType'' = PStr ''Call'' \<and> t = ''CE'' \<or>
           dget c ''optionType'' = PStr ''Put'' \<and> t = ''PE''"
      and "dget c ''strikePrice'' \<noteq> PNone"
      and "truthy (if truthy (dget c ''expiryDate'') then dget c ''expiryDate'' else nearest)"
      and "map_of m (dget c ''strikePrice'',
             if truthy (dget c ''expiryDate'') then dget c ''expiryDate'' else nearest) = Some inner"
      and "map_of inner t = Some detail"
  shows "lookup_detail m nearest c = Some detail"
proof -
  from assms(1) have "oc_type_key (dget c ''optionType'') = Some t"
    by (auto simp: oc_type_key_def)
  moreover have "lookup_expiry nearest c =
      (if truthy (dget c ''expiryDate'') then dget c ''expiryDate'' else nearest)"
    by (simp add: lookup_expiry_def)
  ultimately show ?thesis
    using assms(2-5) by (simp add: lookup_detail_def)
qed

lemma lookup_detail_miss:
  assumes "\<forall>t inner.
             (dget c ''optionType'' = PStr ''Call'' \<and> t = ''CE'' \<or>
              dget c ''optionType'' = PStr ''Put'' \<and> t = ''PE'') \<longrightarrow>
             dget c ''strikePrice'' \<noteq> PNone \<longrightarrow>
             truthy (if truthy (dget c ''expiryDate'') then dget c ''expiryDate'' else nearest) \<longrightarrow>
             map_of m (dget c ''strikePrice'',
               if truthy (dget c ''expiryDate'') then dget c ''expiryDate'' else nearest) = Some inner \<longrightarrow>
             map_of inner t = None"
  shows "lookup_detail m nearest c = None"
proof (cases "oc_type_key (dget c ''optionType'')")
  case None
  then show ?thesis by (simp add: lookup_detail_def)
next
  case (Some t)
  then have side: "dget c ''optionType'' = PStr ''Call'' \<and> t = ''CE'' \<or>
                   dget c ''optionType'' = PStr ''Put'' \<and> t = ''PE''"
    by (auto simp: oc_type_key_def split: if_splits)
  have e: "lookup_expiry nearest c =
      (if truthy (dget c ''expiryDate'') then dget c ''expiryDate'' else nearest)"
    by (simp add: lookup_expiry_def)
  show ?thesis
  proof (cases "dget c ''strikePrice'' \<noteq> PNone \<and> truthy (lookup_expiry nearest c)")
    case False
    with Some show ?thesis by (auto simp: lookup_detail_def)
  next
    case True
    show ?thesis
    proof (cases "map_of m (dget c ''strikePrice'', lookup_expiry nearest c)")
      case None
      with Some True show ?thesis by (simp add: lookup_detail_def)
    next
      case (Some inner)
      from True have "dget c ''strikePrice'' \<noteq> PNone"
        and "truthy (if truthy (dget c ''expiryDate'') then dget c ''expiryDate'' else nearest)"
        by (simp_all only: e [symmetric] simp_thms)
      moreover from Some have "map_of m (dget c ''strikePrice'',
               if truthy (dget c ''expiryDate'') then dget c ''expiryDate'' else nearest) = Some inner"
        by (simp only: e [symmetric])
      ultimately have "map_of inner t = None"
        using assms [rule_format, OF side] by simp
      with Some \<open>oc_type_key (dget c ''optionType'') = Some t\<close> True show ?thesis
        by (simp add: lookup_detail_def)
    qed
  qed
qed

text \<open>
  The last price is normalized twice, under the default 0 (line 455) and then under the
  minimum tick (line 460): a last price of zero becomes 0.05.
\<close>

lemma last_price_floor:
  "numeric_field parse d k (1/20) =
     (if numeric_field parse d k 0 = PNum 0 then PNum (1/20) else numeric_field parse d k 0)"
proof (cases "map_of d k")
  case None
  then show ?thesis by (simp add: numeric_field_def dict_get_def py_or_def)
next
  case (Some v)
  then show ?thesis
    by (cases v) (auto simp: numeric_field_def dict_get_def py_or_def split: option.splits)
qed

text \<open>
  C2, as stated, fails for the last price. In the example of the specification the
  detail of strike 21000 CE holds the normalized last price 0 (the chain gave none), and
  the enriched record has the last price 0.05: the minimum tick of line 460 replaces a
  last price of zero.
\<close>

theorem C2_last_price_counterexample:
  "map_of example_table (PNum 21000, example_nearest) =
     Some [(''CE'', [(''openInterest'', PNum 120000), (''changeinOpenInterest'', PNum 15000),
                     (''totalBuyQuantity'', PNum 0), (''totalSellQuantity'', PNum 0),
                     (''pChange'', PNum 5), (''lastPrice'', PNum 0),
                     (''totalTradedVolume'', PNum 0)])] \<and>
   enrich_contracts parse_digits example_table example_nearest [example_call] =
     Inr [[(''strikePrice'', PNum 21000), (''optionType'', PStr ''CE''), (''OI'', PNum 120000),
           (''COI'', PNum 15000), (''TBQ'', PNum 0), (''TSQ'', PNum 0), (''pchange'', PNum 5),
           (''lastPrice'', PNum (1/20)), (''volume'', PNum 0), (''value'', PStr ''-''),
           (''OI_display'', PNum 120000), (''COI_display'', PNum 15000),
           (''volume_display'', PStr ''-''), (''expiryDate'', PStr ''26-Dec-2024'')]]"
  by code_simp

text \<open>
  C2, amended. The key of a summary record is its strike, its own expiry (the nearest
  expiry when it has none) and the side CE for \<open>Call\<close>, PE for \<open>Put\<close>. When the lookup
  table has a detail under that key, the enriched record's OI, COI, TBQ, TSQ and pchange
  are the normalized fields of the detail, and its lastPrice is the normalized last price
  of the detail, or the minimum tick 0.05 when that is zero. When the table has no detail
  under the key, the record keeps its own OI, COI, TBQ and TSQ fields, and its own
  pchange and lastPrice, normalized under the defaults 0 and 0.05.
\<close>

theorem C2_override_and_fallback:
  assumes "enrich_contracts parse m nearest contracts = Inr enriched"
      and "i < length contracts"
  shows "let c = contracts ! i;
             mc = enriched ! i;
             strike = dget c ''strikePrice'';
             expiry = (if truthy (dget c ''expiryDate'') then dget c ''expiryDate'' else nearest)
         in (\<forall>t inner detail.
               (dget c ''optionType'' = PStr ''Call'' \<and> t = ''CE'' \<or>
                dget c ''optionType'' = PStr ''Put'' \<and> t = ''PE'') \<longrightarrow>
               strike \<noteq> PNone \<longrightarrow>
               truthy expiry \<longrightarrow>
               map_of m (strike, expiry) = Some inner \<longrightarrow>
               map_of inner t = Some detail \<longrightarrow>
                 map_of mc ''OI'' = Some (numeric_field parse detail ''openInterest'' 0) \<and>
                 map_of mc ''COI'' = Some (numeric_field parse detail ''changeinOpenInterest'' 0) \<and>
                 map_of mc ''TBQ'' = Some (numeric_field parse detail ''totalBuyQuantity'' 0) \<and>
                 map_of mc ''TSQ'' = Some (numeric_field parse detail ''totalSellQuantity'' 0) \<and>
                 map_of mc ''pchange'' = Some (numeric_field parse detail ''pChange'' 0) \<and>
                 map_of mc ''lastPrice'' =
                   Some (if numeric_field parse detail ''lastPrice'' 0 = PNum 0 then PNum (1/20)
                         else numeric_field parse detail ''lastPrice'' 0)) \<and>
            ((\<forall>t inner.
                (dget c ''optionType'' = PStr ''Call'' \<and> t = ''CE'' \<or>
                 dget c ''optionType'' = PStr ''Put'' \<and> t = ''PE'') \<longrightarrow>
                strike \<noteq> PNone \<longrightarrow>
                truthy expiry \<longrightarrow>
                map_of m (strike, expiry) = Some inner \<longrightarrow>
                map_of inner t = None) \<longrightarrow>
                 map_of mc ''OI'' = map_of c ''OI'' \<and>
                 map_of mc ''COI'' = map_of c ''COI'' \<and>
                 map_of mc ''TBQ'' = map_of c ''TBQ'' \<and>
                 map_of mc ''TSQ'' = map_of c ''TSQ'' \<and>
                 map_of mc ''pchange'' = Some (numeric_field parse c ''pchange'' 0) \<and>
                 map_of mc ''lastPrice'' = Some (numeric_field parse c ''lastPrice'' (1/20)))"
proof -
  define c where "c = contracts ! i"
  define mc where "mc = enriched ! i"
  define expiry where
    "expiry = (if truthy (dget c ''expiryDate'') then dget c ''expiryDate'' else nearest)"
  from assms have one: "enrich_one parse m nearest c = Inr mc"
    unfolding c_def mc_def using enrich_contracts_nth by blast
  have hit: "map_of mc ''OI'' = Some (numeric_field parse detail ''openInterest'' 0) \<and>
             map_of mc ''COI'' = Some (numeric_field parse detail ''changeinOpenInterest'' 0) \<and>
             map_of mc ''TBQ'' = Some (numeric_field parse detail ''totalBuyQuantity'' 0) \<and>
             map_of mc ''TSQ'' = Some (numeric_field parse detail ''totalSellQuantity'' 0) \<and>
             map_of mc ''pchange'' = Some (numeric_field parse detail ''pChange'' 0) \<and>
             map_of mc ''lastPrice'' =
               Some (if numeric_field parse detail ''lastPrice'' 0 = PNum 0 then PNum (1/20)
                     else numeric_field parse detail ''lastPrice'' 0)"
    if "dget c ''optionType'' = PStr ''Call'' \<and> t = ''CE'' \<or>
        dget c ''optionType'' = PStr ''Put'' \<and> t = ''PE''"
       "dget c ''strikePrice'' \<noteq> PNone" "truthy expiry"
       "map_of m (dget c ''strikePrice'', expiry) = Some inner" "map_of inner t = Some detail"
    for t inner detail
  proof -
    from that have found: "lookup_detail m nearest c = Some detail"
      unfolding expiry_def by (rule lookup_detail_hit)
    have "map_of mc ''lastPrice'' = Some (numeric_field parse detail ''lastPrice'' (1/20))"
      using one found by (rule enrich_one_match)
    then have "map_of mc ''lastPrice'' =
               Some (if numeric_field parse detail ''lastPrice'' 0 = PNum 0 then PNum (1/20)
                     else numeric_field parse detail ''lastPrice'' 0)"
      by (simp only: last_price_floor [symmetric])
    then show ?thesis
      using enrich_one_match(1-5) [OF one found] by simp
  qed
  have miss: "map_of mc ''OI'' = map_of c ''OI'' \<and>
              map_of mc ''COI'' = map_of c ''COI'' \<and>
              map_of mc ''TBQ'' = map_of c ''TBQ'' \<and>
              map_of mc ''TSQ'' = map_of c ''TSQ'' \<and>
              map_of mc ''pchange'' = Some (numeric_field parse c ''pchange'' 0) \<and>
              map_of mc ''lastPrice'' = Some (numeric_field parse c ''lastPrice'' (1/20))"
    if "\<forall>t inner.
          (dget c ''optionType'' = PStr ''Call'' \<and> t = ''CE'' \<or>
           dget c ''optionType'' = PStr ''Put'' \<and> t = ''PE'') \<longrightarrow>
          dget c ''strikePrice'' \<noteq> PNone \<longrightarrow>
          truthy expiry \<longrightarrow>
          map_of m (dget c ''strikePrice'', expiry) = Some inner \<longrightarrow>
          map_of inner t = None"
  proof -
    from that have none: "lookup_detail m nearest c = None"
      unfolding expiry_def by (rule lookup_detail_miss)
    show ?thesis
      using enrich_one_nomatch [OF one none] by simp
  qed
  have A: "\<forall>t inner detail.
               (dget c ''optionType'' = PStr ''Call'' \<and> t = ''CE'' \<or>
                dget c ''optionType'' = PStr ''Put'' \<and> t = ''PE'') \<longrightarrow>
               dget c ''strikePrice'' \<noteq> PNone \<longrightarrow>
               truthy expiry \<longrightarrow>
               map_of m (dget c ''strikePrice'', expiry) = Some inner \<longrightarrow>
               map_of inner t = Some detail \<longrightarrow>
                 map_of mc ''OI'' = Some (numeric_field parse detail ''openInterest'' 0) \<and>
                 map_of mc ''COI'' = Some (numeric_field parse detail ''changeinOpenInterest'' 0) \<and>
                 map_of mc ''TBQ'' = Some (numeric_field parse detail ''totalBuyQuantity'' 0) \<and>
                 map_of mc ''TSQ'' = Some (numeric_field parse detail ''totalSellQuantity'' 0) \<and>
                 map_of mc ''pchange'' = Some (numeric_field parse detail ''pChange'' 0) \<and>
                 map_of mc ''lastPrice'' =
                   Some (if numeric_field parse detail ''lastPrice'' 0 = PNum 0 then PNum (1/20)
                         else numeric_field parse detail ''lastPrice'' 0)"
    by (intro allI impI) (rule hit)
  have B: "(\<forall>t inner.
                (dget c ''optionType'' = PStr ''Call'' \<and> t = ''CE'' \<or>
                 dget c ''optionType'' = PStr ''Put'' \<and> t = ''PE'') \<longrightarrow>
                dget c ''strikePrice'' \<noteq> PNone \<longrightarrow>
                truthy expiry \<longrightarrow>
                map_of m (dget c ''strikePrice'', expiry) = Some inner \<longrightarrow>
                map_of inner t = None) \<longrightarrow>
                 map_of mc ''OI'' = map_of c ''OI'' \<and>
                 map_of mc ''COI'' = map_of c ''COI'' \<and>
                 map_of mc ''TBQ'' = map_of c ''TBQ'' \<and>
                 map_of mc ''TSQ'' = map_of c ''TSQ'' \<and>
                 map_of mc ''pchange'' = Some (numeric_field parse c ''pchange'' 0) \<and>
                 map_of mc ''lastPrice'' = Some (numeric_field parse c ''lastPrice'' (1/20))"
    by (intro impI) (rule miss)
  show ?thesis
    unfolding Let_def c_def [symmetric] mc_def [symmetric] expiry_def [symmetric]
    by (rule conjI [OF A B])
qed

text \<open>
  Four summary records against a table of two expiries. The call of the specification's
  example (strike 21000, no OI field, no expiry) is matched under the nearest expiry and
  enriched to OI = 120000 and COI = 15000, with the last price 0.05. The call at strike
  21100 is matched under its own, later expiry, and takes the detail's fields, which the
  chain gave as strings. The call at strike 21000 with the later expiry matches nothing
  and keeps its own OI, and so does the put at strike 21500, whose percent change, a
  string, is normalized.
\<close>

theorem C2_override_and_fallback_witness:
  "\<exists>enriched.
     enrich_contracts parse_digits expiry_table example_nearest
       [example_call, far_call, wrong_expiry_call, unlisted_put] = Inr enriched \<and>
     map_of (enriched ! 0) ''OI'' = Some (PNum 120000) \<and>
     map_of (enriched ! 0) ''COI'' = Some (PNum 15000) \<and>
     map_of (enriched ! 0) ''lastPrice'' = Some (PNum (1/20)) \<and>
     map_of (enriched ! 1) ''OI'' = Some (PNum 95000) \<and>
     map_of (enriched ! 1) ''pchange'' = Some (PNum 3) \<and>
     map_of (enriched ! 1) ''lastPrice'' = Some (PNum 42) \<and>
     map_of (enriched ! 2) ''OI'' = Some (PNum 111) \<and>
     map_of (enriched ! 3) ''OI'' = Some (PNum 999) \<and>
     map_of (enriched ! 3) ''pchange'' = Some (PNum 7)"
proof -
  define near where "near =
    [(''openInterest'', PNum 120000), (''changeinOpenInterest'', PNum 15000),
     (''totalBuyQuantity'', PNum 0), (''totalSellQuantity'', PNum 0), (''pChange'', PNum 5),
     (''lastPrice'', PNum 0), (''totalTradedVolume'', PNum 0)]"
  define far where "far =
    [(''openInterest'', PNum 95000), (''changeinOpenInterest'', PNum 0),
     (''totalBuyQuantity'', PNum 0), (''totalSellQuantity'', PNum 0), (''pChange'', PNum 3),
     (''lastPrice'', PNum 42), (''totalTradedVolume'', PNum 0)]"
  define cs where "cs = [example_call, far_call, wrong_expiry_call, unlisted_put]"
  have "list_all (\<lambda>c. is_str (dget c ''optionType'')) cs"
    unfolding cs_def by code_simp
  then have "\<exists>enriched. enrich_contracts parse_digits expiry_table example_nearest cs = Inr enriched"
    by (rule enrich_contracts_succeeds)
  then obtain enriched where
    en: "enrich_contracts parse_digits expiry_table example_nearest cs = Inr enriched" ..
  have l: "0 < length cs" "1 < length cs" "2 < length cs" "3 < length cs"
    by (simp_all add: cs_def)
  \<comment> \<open>record 0: matched under the nearest expiry\<close>
  have a0: "dget (cs ! 0) ''optionType'' = PStr ''Call'' \<and> ''CE'' = ''CE'' \<or>
            dget (cs ! 0) ''optionType'' = PStr ''Put'' \<and> ''CE'' = ''PE''"
    unfolding cs_def by code_simp
  have b0: "dget (cs ! 0) ''strikePrice'' \<noteq> PNone"
    unfolding cs_def by code_simp
  have c0: "truthy (if truthy (dget (cs ! 0) ''expiryDate'') then dget (cs ! 0) ''expiryDate''
                    else example_nearest)"
    unfolding cs_def by code_simp
  have d0: "map_of expiry_table (dget (cs ! 0) ''strikePrice'',
              if truthy (dget (cs ! 0) ''expiryDate'') then dget (cs ! 0) ''expiryDate''
              else example_nearest) = Some [(''CE'', near)]"
    unfolding cs_def near_def by code_simp
  have e0: "map_of [(''CE'', near)] ''CE'' = Some near" by simp
  have v0: "numeric_field parse_digits near ''openInterest'' 0 = PNum 120000"
           "numeric_field parse_digits near ''changeinOpenInterest'' 0 = PNum 15000"
           "numeric_field parse_digits near ''lastPrice'' 0 = PNum 0"
    unfolding near_def by code_simp+
  note r0 = C2_override_and_fallback [OF en l(1), unfolded Let_def, THEN conjunct1, rule_format,
      OF a0 b0 c0 d0 e0]
  \<comment> \<open>record 1: matched under its own expiry\<close>
  have a1: "dget (cs ! 1) ''optionType'' = PStr ''Call'' \<and> ''CE'' = ''CE'' \<or>
            dget (cs ! 1) ''optionType'' = PStr ''Put'' \<and> ''CE'' = ''PE''"
    unfolding cs_def by code_simp
  have b1: "dget (cs ! 1) ''strikePrice'' \<noteq> PNone"
    unfolding cs_def by code_simp
  have c1: "truthy (if truthy (dget (cs ! 1) ''expiryDate'') then dget (cs ! 1) ''expiryDate''
                    else example_nearest)"
    unfolding cs_def by code_simp
  have d1: "map_of expiry_table (dget (cs ! 1) ''strikePrice'',
              if truthy (dget (cs ! 1) ''expiryDate'') then dget (cs ! 1) ''expiryDate''
              else example_nearest) = Some [(''CE'', far)]"
    unfolding cs_def far_def by code_simp
  have e1: "map_of [(''CE'', far)] ''CE'' = Some far" by simp
  have v1: "numeric_field parse_digits far ''openInterest'' 0 = PNum 95000"
           "numeric_field parse_digits far ''pChange'' 0 = PNum 3"
           "numeric_field parse_digits far ''lastPrice'' 0 = PNum 42"
    unfolding far_def by code_simp+
  note r1 = C2_override_and_fallback [OF en l(2), unfolded Let_def, THEN conjunct1, rule_format,
      OF a1 b1 c1 d1 e1]
  \<comment> \<open>record 2: its own expiry is not in the table\<close>
  have d2: "map_of expiry_table (dget (cs ! 2) ''strikePrice'',
              if truthy (dget (cs ! 2) ''expiryDate'') then dget (cs ! 2) ''expiryDate''
              else example_nearest) = None"
    unfolding cs_def by code_simp
  have v2: "map_of (cs ! 2) ''OI'' = Some (PNum 111)"
    unfolding cs_def by code_simp
  note r2 = C2_override_and_fallback [OF en l(3), unfolded Let_def, THEN conjunct2, rule_format]
  \<comment> \<open>record 3: its strike is not in the table\<close>
  have d3: "map_of expiry_table (dget (cs ! 3) ''strikePrice'',
              if truthy (dget (cs ! 3) ''expiryDate'') then dget (cs ! 3) ''expiryDate''
              else example_nearest) = None"
    unfolding cs_def by code_simp
  have v3: "map_of (cs ! 3) ''OI'' = Some (PNum 999)"
           "numeric_field parse_digits (cs ! 3) ''pchange'' 0 = PNum 7"
    unfolding cs_def by code_simp+
  note r3 = C2_override_and_fallback [OF en l(4), unfolded Let_def, THEN conjunct2, rule_format]
  have "map_of (enriched ! 0) ''OI'' = Some (PNum 120000)"
       "map_of (enriched ! 0) ''COI'' = Some (PNum 15000)"
       "map_of (enriched ! 0) ''lastPrice'' = Some (PNum (1/20))"
    using r0 by (simp_all add: v0)
  moreover have "map_of (enriched ! 1) ''OI'' = Some (PNum 95000)"
       "map_of (enriched ! 1) ''pchange'' = Some (PNum 3)"
       "map_of (enriched ! 1) ''lastPrice'' = Some (PNum 42)"
    using r1 by (simp_all add: v1)
  moreover have "map_of (enriched ! 2) ''OI'' = Some (PNum 111)"
    using r2 by (simp add: d2 v2)
  moreover have "map_of (enriched ! 3) ''OI'' = Some (PNum 999)"
       "map_of (enriched ! 3) ''pchange'' = Some (PNum 7)"
    using r3 by (simp_all add: d3 v3)
  ultimately show ?thesis
    using en unfolding cs_def by (intro exI [of _ enriched]) simp
qed

section \<open>Which records the merger emits\<close>

lemma finish_keys:
  "fst ` set (finish parse nearest m0) =
     fst ` set m0 \<union> {''lastPrice'', ''volume'', ''value'', ''pchange'', ''OI_display'',
                        ''COI_display'', ''volume_display'', ''expiryDate''}"
  by (simp add: finish_def Let_def dom_update)

lemma override_keys: "fst ` set c \<subseteq> fst ` set (override parse detail c)"
  by (simp add: override_def override_items_def dict_update_Cons dict_update_Nil dom_update) blast

lemma override_strike:
  "map_of (override parse detail c) ''strikePrice'' = map_of c ''strikePrice''"
  by (simp add: override_other)

lemma enrich_one_emits:
  assumes "dget c ''optionType'' = PStr s"
  shows "\<exists>mc. enrich_one parse m nearest c = Inr mc \<and>
           map_of mc ''strikePrice'' = map_of c ''strikePrice'' \<and>
           fst ` set c \<subseteq> fst ` set mc \<and>
           {''optionType'', ''lastPrice'', ''volume'', ''value'', ''pchange'', ''OI_display'',
            ''COI_display'', ''volume_display'', ''expiryDate''} \<subseteq> fst ` set mc"
proof -
  define c' where
    "c' = (case lookup_detail m nearest c of None \<Rightarrow> c | Some detail \<Rightarrow> override parse detail c)"
  define mc where
    "mc = finish parse nearest (AList.update ''optionType'' (PStr (translate_type s)) c')"
  have run: "enrich_one parse m nearest c = Inr mc"
    using assms by (simp add: enrich_one_str mc_def c'_def)
  have sub: "fst ` set c \<subseteq> fst ` set c'"
    using override_keys by (auto simp: c'_def split: option.splits)
  have strike: "map_of c' ''strikePrice'' = map_of c ''strikePrice''"
    by (simp add: c'_def override_strike split: option.splits)
  define K where "K = {''lastPrice'', ''volume'', ''value'', ''pchange'', ''OI_display'',
      ''COI_display'', ''volume_display'', ''expiryDate'', ''optionType''}"
  have keys: "fst ` set mc = K \<union> fst ` set c'"
    by (simp add: mc_def finish_keys dom_update K_def)
  have "map_of mc ''strikePrice'' = map_of c ''strikePrice''"
    by (simp add: mc_def finish_other update_conv' strike)
  moreover have "fst ` set c \<subseteq> fst ` set mc"
    using sub keys by blast
  moreover have "K \<subseteq> fst ` set mc"
    using keys by blast
  then have "{''optionType'', ''lastPrice'', ''volume'', ''value'', ''pchange'', ''OI_display'',
            ''COI_display'', ''volume_display'', ''expiryDate''} \<subseteq> fst ` set mc"
    by (simp add: K_def)
  ultimately show ?thesis using run by blast
qed

lemma enrich_contracts_emits:
  assumes "list_all (\<lambda>c. is_str (dget c ''optionType'')) contracts"
  shows "\<exists>enriched.
           enrich_contracts parse m nearest contracts = Inr enriched \<and>
           list_all2 (\<lambda>c mc.
               map_of mc ''strikePrice'' = map_of c ''strikePrice'' \<and>
               fst ` set c \<subseteq> fst ` set mc \<and>
               {''optionType'', ''lastPrice'', ''volume'', ''value'', ''pchange'', ''OI_display'',
                ''COI_display'', ''volume_display'', ''expiryDate''} \<subseteq> fst ` set mc)
             contracts enriched"
  using assms
proof (induction contracts)
  case Nil
  then show ?case by simp
next
  case (Cons c cs)
  then obtain s where "dget c ''optionType'' = PStr s"
    by (cases "dget c ''optionType''") simp_all
  from enrich_one_emits [OF this, of parse m nearest] obtain mc where
    mc: "enrich_one parse m nearest c = Inr mc"
        "map_of mc ''strikePrice'' = map_of c ''strikePrice''"
        "fst ` set c \<subseteq> fst ` set mc"
        "{''optionType'', ''lastPrice'', ''volume'', ''value'', ''pchange'', ''OI_display'',
          ''COI_display'', ''volume_display'', ''expiryDate''} \<subseteq> fst ` set mc"
    by blast
  from Cons obtain en where
    en: "enrich_contracts parse m nearest cs = Inr en"
        "list_all2 (\<lambda>c mc.
               map_of mc ''strikePrice'' = map_of c ''strikePrice'' \<and>
               fst ` set c \<subseteq> fst ` set mc \<and>
               {''optionType'', ''lastPrice'', ''volume'', ''value'', ''pchange'', ''OI_display'',
                ''COI_display'', ''volume_display'', ''expiryDate''} \<subseteq> fst ` set mc) cs en"
    by auto
  show ?case
    using mc en by simp
qed


text \<open>
  C3, as stated, fails: the summary record without a strike price is not skipped. It is
  in the output, with its fields defaulted (and the sort of line 480 gives such a record
  the key 0).
\<close>

theorem C3_no_strike_counterexample:
  "map_of example_no_strike ''strikePrice'' = None \<and>
   enrich_contracts parse_digits example_table example_nearest [example_no_strike] =
     Inr [[(''optionType'', PStr ''CE''), (''lastPrice'', PNum 12), (''volume'', PNum 0),
           (''value'', PStr ''-''), (''pchange'', PNum 0), (''OI_display'', PStr ''-''),
           (''COI_display'', PStr ''-''), (''volume_display'', PStr ''-''),
           (''expiryDate'', PStr ''26-Dec-2024'')]]"
  by code_simp

text \<open>A record without \<open>optionType\<close> makes the merger raise (line 459).\<close>

lemma enrich_contracts_no_type:
  "enrich_contracts parse_digits example_table example_nearest [[(''strikePrice'', PNum 21000)]] =
     Inl AttributeError"
  by code_simp

text \<open>
  C3, amended: when the \<open>optionType\<close> of every summary record is a string, the merger
  raises nothing and emits every record, in the order of the input: also a record without
  a strike price, a record that matches nothing and a record without expiry. Each output
  record keeps the strike price and all the keys of its input record, and has the
  defaulted fields.
\<close>

theorem C3_every_record_emitted:
  assumes "list_all (\<lambda>c. is_str (dget c ''optionType'')) contracts"
  shows "\<exists>enriched.
           enrich_contracts parse m nearest contracts = Inr enriched \<and>
           list_all2 (\<lambda>c mc.
               map_of mc ''strikePrice'' = map_of c ''strikePrice'' \<and>
               fst ` set c \<subseteq> fst ` set mc \<and>
               {''optionType'', ''lastPrice'', ''volume'', ''value'', ''pchange'', ''OI_display'',
                ''COI_display'', ''volume_display'', ''expiryDate''} \<subseteq> fst ` set mc)
             contracts enriched"
  using assms by (rule enrich_contracts_emits)

theorem C3_every_record_emitted_witness:
  "\<exists>enriched.
     enrich_contracts parse_digits example_table example_nearest
       [example_no_strike, example_put, example_call] = Inr enriched \<and>
     length enriched = 3"
proof -
  have "list_all (\<lambda>c. is_str (dget c ''optionType'')) [example_no_strike, example_put, example_call]"
    by code_simp
  from C3_every_record_emitted [OF this, of parse_digits example_table example_nearest]
  show ?thesis
    by (auto dest: list_all2_lengthD)
qed

section \<open>What the lookup table holds\<close>

lemma alert_opt_fields:
  "dget (alert_opt parse strike typ expiry d) ''OI'' = numeric_field parse d ''openInterest'' 0"
  "dget (alert_opt parse strike typ expiry d) ''COI'' = numeric_field parse d ''changeinOpenInterest'' 0"
  "dget (alert_opt parse strike typ expiry d) ''TBQ'' = numeric_field parse d ''totalBuyQuantity'' 0"
  "dget (alert_opt parse strike typ expiry d) ''TSQ'' = numeric_field parse d ''totalSellQuantity'' 0"
  "dget (alert_opt parse strike typ expiry d) ''pchange'' = numeric_field parse d ''pChange'' 0"
  "dget (alert_opt parse strike typ expiry d) ''lastPrice'' = numeric_field parse d ''lastPrice'' 0"
  by (simp_all add: alert_opt_def dget_def)

text \<open>
  The detail of a chain side holds the normalized open interest, change in open interest,
  quantities, percent change and last price of that side.
\<close>

lemma detail_of_alert_opt:
  "detail_of (alert_opt parse strike typ expiry d) =
     [(''openInterest'', numeric_field parse d ''openInterest'' 0),
      (''changeinOpenInterest'', numeric_field parse d ''changeinOpenInterest'' 0),
      (''totalBuyQuantity'', numeric_field parse d ''totalBuyQuantity'' 0),
      (''totalSellQuantity'', numeric_field parse d ''totalSellQuantity'' 0),
      (''pChange'', numeric_field parse d ''pChange'' 0),
      (''lastPrice'', numeric_field parse d ''lastPrice'' 0),
      (''totalTradedVolume'', PNum 0)]"
  by (simp add: detail_of_def alert_opt_fields) (simp add: alert_opt_def dict_get_def)

text \<open>
  C5: the traded volume of the detail is not the chain row's \<open>totalTradedVolume\<close>. The
  alert dict has no key \<open>volume\<close>, line 426 reads \<open>opt.get('volume', 0)\<close>, and every
  detail holds the volume 0. A matched summary loses its own volume: the chain row has
  \<open>totalTradedVolume\<close> 5000, the summary has volume 777, the enriched record has volume 0.
\<close>

theorem C5_volume_is_zero:
  "row_CE (hd volume_chain) = Some [(''openInterest'', PNum 120000), (''totalTradedVolume'', PNum 5000)] \<and>
   enrich_contracts parse_digits
       (oc_details_map (all_options_for_alerts parse_digits example_nearest volume_chain))
       example_nearest [volume_call] =
     Inr [[(''strikePrice'', PNum 21000), (''optionType'', PStr ''CE''), (''volume'', PNum 0),
           (''OI'', PNum 120000), (''COI'', PNum 0), (''TBQ'', PNum 0), (''TSQ'', PNum 0),
           (''pchange'', PNum 0), (''lastPrice'', PNum (1/20)), (''value'', PStr ''-''),
           (''OI_display'', PNum 120000), (''COI_display'', PStr ''-''),
           (''volume_display'', PStr ''-''), (''expiryDate'', PStr ''26-Dec-2024'')]]"
  by code_simp


section \<open>The enriched lists in strike order\<close>

lemma py_sorted_num:
  assumes "list_all (\<lambda>x. is_num (key x)) xs"
  shows "\<exists>ys. py_sorted key xs = Inr ys \<and>
           sorted (map (\<lambda>x. num_of (key x)) ys) \<and>
           mset ys = mset xs \<and>
           (\<forall>k. filter (\<lambda>x. num_of (key x) = k) ys = filter (\<lambda>x. num_of (key x) = k) xs)"
proof (cases "length xs < 2")
  case True
  then have "xs = [] \<or> (\<exists>x. xs = [x])"
    by (cases xs) (auto simp: less_Suc_eq_le)
  with True show ?thesis by (auto simp: py_sorted_def)
next
  case False
  with assms have "py_sorted key xs = Inr (sort_key (\<lambda>x. num_of (key x)) xs)"
    by (simp add: py_sorted_def)
  then show ?thesis
    by (simp add: sort_key_stable)
qed

lemma enriched_strike_keys:
  assumes "list_all2 (\<lambda>c mc. map_of mc ''strikePrice'' = map_of c ''strikePrice'' \<and> Q c mc) cs en"
      and "list_all (\<lambda>c. is_num (strike_key c)) cs"
  shows "list_all (\<lambda>c. is_num (strike_key c)) en"
  using assms
  by (induction cs en rule: list_all2_induct) (simp_all add: strike_key_def dict_get_def)

text \<open>
  C8. When every summary record has a string \<open>optionType\<close> and a strike price that is a
  number (or none, which sorts as 0), the enriched call list and the enriched put list
  are the enriched records in ascending order of strike price, and records of equal
  strike keep the order the provider gave them.
\<close>

theorem C8_strike_order:
  assumes "list_all (\<lambda>c. is_str (dget c ''optionType'')) raw"
      and "list_all (\<lambda>c. is_num (strike_key c)) raw"
  shows "\<exists>enriched out.
           enrich_contracts parse m nearest raw = Inr enriched \<and>
           calls_enriched parse m nearest raw = Inr out \<and>
           puts_enriched parse m nearest raw = Inr out \<and>
           sorted (map (\<lambda>x. num_of (strike_key x)) out) \<and>
           mset out = mset enriched \<and>
           (\<forall>k. filter (\<lambda>x. num_of (strike_key x) = k) out =
                filter (\<lambda>x. num_of (strike_key x) = k) enriched)"
proof -
  from enrich_contracts_emits [OF assms(1), of parse m nearest] obtain enriched where
    en: "enrich_contracts parse m nearest raw = Inr enriched"
    and rel: "list_all2 (\<lambda>c mc.
               map_of mc ''strikePrice'' = map_of c ''strikePrice'' \<and>
               fst ` set c \<subseteq> fst ` set mc \<and>
               {''optionType'', ''lastPrice'', ''volume'', ''value'', ''pchange'', ''OI_display'',
                ''COI_display'', ''volume_display'', ''expiryDate''} \<subseteq> fst ` set mc)
             raw enriched"
    by blast
  from rel assms(2) have "list_all (\<lambda>c. is_num (strike_key c)) enriched"
    by (rule enriched_strike_keys)
  from py_sorted_num [OF this] obtain out where
    "py_sorted strike_key enriched = Inr out"
    "sorted (map (\<lambda>x. num_of (strike_key x)) out)"
    "mset out = mset enriched"
    "\<forall>k. filter (\<lambda>x. num_of (strike_key x) = k) out = filter (\<lambda>x. num_of (strike_key x) = k) enriched"
    by blast
  with en show ?thesis
    by (simp add: calls_enriched_def puts_enriched_def)
qed

text \<open>
  The example of the specification: the strikes 21500, 21000, 21200 come out as 21000,
  21200, 21500.
\<close>

theorem C8_strike_order_witness:
  "map_sum id (map (\<lambda>x. dget x ''strikePrice''))
       (calls_enriched parse_digits example_table example_nearest example_calls) =
     Inr [PNum 21000, PNum 21200, PNum 21500] \<and>
   (\<exists>out. calls_enriched parse_digits example_table example_nearest example_calls = Inr out \<and>
          sorted (map (\<lambda>x. num_of (strike_key x)) out))"
proof -
  have a: "list_all (\<lambda>c. is_str (dget c ''optionType'')) example_calls" by code_simp
  have b: "list_all (\<lambda>c. is_num (strike_key c)) example_calls" by code_simp
  have c: "map_sum id (map (\<lambda>x. dget x ''strikePrice''))
       (calls_enriched parse_digits example_table example_nearest example_calls) =
     Inr [PNum 21000, PNum 21200, PNum 21500]"
    by code_simp
  from C8_strike_order [OF a b, of parse_digits example_table example_nearest] c
  show ?thesis by blast
qed


section \<open>The open-interest ranking\<close>

lemma numeric_field_num_or_nan:
  "is_num (numeric_field parse d k x) \<or> numeric_field parse d k x = PNaN"
proof -
  have "is_num (to_numeric parse v) \<or> to_numeric parse v = PNaN" for v
    by (cases v) (auto split: option.splits)
  then show ?thesis
    by (auto simp: numeric_field_def py_or_def)
qed

lemma oi_sort_key_num:
  "is_num (oi_sort_key parse x) = is_num (numeric_field parse x ''OI'' 0)"
  by (cases "numeric_field parse x ''OI'' 0") (simp_all add: oi_sort_key_def)

lemma oi_sort_key_value:
  "num_of (oi_sort_key parse x) = - oi_value parse x"
  by (cases "numeric_field parse x ''OI'' 0") (simp_all add: oi_sort_key_def oi_value_def)

lemma sorted_neg_descending:
  "sorted (map (\<lambda>x. - f x) xs) \<Longrightarrow> sorted_wrt (\<ge>) (map (f :: 'a \<Rightarrow> rat) xs)"
  by (induction xs) auto

lemma translate_Index: "translate_type ''Index'' = ''XX''"
  by code_simp

lemma enrich_one_type:
  assumes "enrich_one parse m nearest c = Inr mc" and "dget c ''optionType'' = PStr s"
  shows "dget mc ''optionType'' = PStr (translate_type s)"
proof -
  have "mc = finish parse nearest (AList.update ''optionType'' (PStr (translate_type s))
       (case lookup_detail m nearest c of None \<Rightarrow> c | Some detail \<Rightarrow> override parse detail c))"
    using assms by (simp add: enrich_one_str)
  then show ?thesis
    by (simp add: dget_def finish_other update_conv')
qed

lemma enrich_contracts_index:
  assumes "enrich_contracts parse m nearest raw = Inr enriched"
      and "c \<in> set raw" and "dget c ''optionType'' = PStr ''Index''"
  shows "\<exists>mc \<in> set enriched. is_index mc"
proof -
  from assms(2) obtain i where i: "i < length raw" "raw ! i = c"
    by (auto simp: in_set_conv_nth)
  with assms(1) have len: "length enriched = length raw"
    and one: "enrich_one parse m nearest c = Inr (enriched ! i)"
    using enrich_contracts_nth by blast+
  from one assms(3) have "is_index (enriched ! i)"
    by (simp add: is_index_def enrich_one_type translate_Index)
  with i len show ?thesis
    by (metis nth_mem)
qed

lemma is_index_nonempty: "is_index c \<Longrightarrow> c \<noteq> []"
  by (auto simp: is_index_def dget_def)

text \<open>
  Where every open interest is a number the ranking is as intended. When the merger
  returns and the normalized open interest of every non-index record is a number, the
  ranked list is: the first record of type \<open>XX\<close>, if there is one, at position 0,
  whatever its open interest; then the records of other types in descending order of
  normalized open interest. A source record of type \<open>Index\<close> is translated to \<open>XX\<close>, so
  when the source has one, position 0 holds an index record.
\<close>

lemma oi_sorted_numeric:
  assumes "enrich_contracts parse m nearest raw = Inr enriched"
      and "list_all (\<lambda>x. is_num (numeric_field parse x ''OI'' 0)) (filter (\<lambda>c. \<not> is_index c) enriched)"
  shows "\<exists>out. oi_sorted parse m nearest raw = Inr out \<and>
           (case find is_index enriched of
              None \<Rightarrow>
                sorted_wrt (\<ge>) (map (oi_value parse) out) \<and> mset out = mset enriched
            | Some c \<Rightarrow>
                out \<noteq> [] \<and> out ! 0 = c \<and> is_index (out ! 0) \<and>
                sorted_wrt (\<ge>) (map (oi_value parse) (tl out)) \<and>
                mset (tl out) = mset (filter (\<lambda>c. \<not> is_index c) enriched)) \<and>
           ((\<exists>c \<in> set raw. dget c ''optionType'' = PStr ''Index'') \<longrightarrow>
              out \<noteq> [] \<and> is_index (out ! 0))"
proof -
  define only where "only = filter (\<lambda>c. \<not> is_index c) enriched"
  have "list_all (\<lambda>x. is_num (oi_sort_key parse x)) only"
    using assms(2) by (simp add: only_def oi_sort_key_num)
  from py_sorted_num [OF this] obtain srt where
    srt: "py_sorted (oi_sort_key parse) only = Inr srt"
    and asc: "sorted (map (\<lambda>x. num_of (oi_sort_key parse x)) srt)"
    and perm: "mset srt = mset only"
    by blast
  from asc have desc: "sorted_wrt (\<ge>) (map (oi_value parse) srt)"
    by (simp add: oi_sort_key_value sorted_neg_descending)
  show ?thesis
  proof (cases "find is_index enriched")
    case None
    then have eq: "only = enriched"
      by (simp add: only_def find_None_iff)
    have "oi_sorted parse m nearest raw = Inr srt"
      using None srt assms(1) by (simp add: oi_sorted_def only_def [symmetric])
    moreover have "sorted_wrt (\<ge>) (map (oi_value parse) srt)"
      by (rule desc)
    moreover have "mset srt = mset enriched"
      using perm eq by simp
    moreover have "\<not> (\<exists>c \<in> set raw. dget c ''optionType'' = PStr ''Index'')"
      using None enrich_contracts_index [OF assms(1)] by (auto simp: find_None_iff)
    ultimately show ?thesis using None by simp
  next
    case (Some c)
    then have c: "is_index c"
      by (auto simp: find_Some_iff)
    then have "c \<noteq> []" by (rule is_index_nonempty)
    with Some srt assms(1) have "oi_sorted parse m nearest raw = Inr (c # srt)"
      by (simp add: oi_sorted_def only_def [symmetric])
    moreover have "mset srt = mset (filter (\<lambda>c. \<not> is_index c) enriched)"
      using perm by (simp only: only_def)
    ultimately show ?thesis
      using Some c desc by simp
  qed
qed

text \<open>
  An index record with open interest 7 is placed before contracts with open interest 900
  and 500.
\<close>

lemma oi_sorted_index_first:
  "map_sum id (map (\<lambda>x. (dget x ''optionType'', dget x ''OI'')))
       (oi_sorted parse_digits example_table example_nearest example_oi) =
     Inr [(PStr ''XX'', PNum 7), (PStr ''PE'', PNum 900), (PStr ''CE'', PNum 500)] \<and>
   (\<exists>out. oi_sorted parse_digits example_table example_nearest example_oi = Inr out \<and>
          is_index (out ! 0))"
proof -
  define enriched where "enriched =
     [[(''strikePrice'', PNum 21300), (''optionType'', PStr ''CE''), (''OI'', PNum 500),
       (''lastPrice'', PNum (1/20)), (''volume'', PNum 0), (''value'', PStr ''-''),
       (''pchange'', PNum 0), (''OI_display'', PNum 500), (''COI_display'', PStr ''-''),
       (''volume_display'', PStr ''-''), (''expiryDate'', PStr ''26-Dec-2024'')],
      [(''optionType'', PStr ''XX''), (''OI'', PNum 7), (''lastPrice'', PNum (1/20)),
       (''volume'', PNum 0), (''value'', PStr ''-''), (''pchange'', PNum 0),
       (''OI_display'', PNum 7), (''COI_display'', PStr ''-''),
       (''volume_display'', PStr ''-''), (''expiryDate'', PStr ''26-Dec-2024'')],
      [(''strikePrice'', PNum 21400), (''optionType'', PStr ''PE''), (''OI'', PNum 900),
       (''lastPrice'', PNum (1/20)), (''volume'', PNum 0), (''value'', PStr ''-''),
       (''pchange'', PNum 0), (''OI_display'', PNum 900), (''COI_display'', PStr ''-''),
       (''volume_display'', PStr ''-''), (''expiryDate'', PStr ''26-Dec-2024'')]]"
  have a: "enrich_contracts parse_digits example_table example_nearest example_oi = Inr enriched"
    unfolding enriched_def by code_simp
  have b: "list_all (\<lambda>x. is_num (numeric_field parse_digits x ''OI'' 0))
             (filter (\<lambda>c. \<not> is_index c) enriched)"
    unfolding enriched_def by code_simp
  have c: "\<exists>c \<in> set example_oi. dget c ''optionType'' = PStr ''Index''"
    by (simp add: example_oi_def dget_def)
  have d: "map_sum id (map (\<lambda>x. (dget x ''optionType'', dget x ''OI'')))
       (oi_sorted parse_digits example_table example_nearest example_oi) =
     Inr [(PStr ''XX'', PNum 7), (PStr ''PE'', PNum 900), (PStr ''CE'', PNum 500)]"
    by code_simp
  from oi_sorted_numeric [OF a b] c d show ?thesis by blast
qed

text \<open>
  C6: the ranked list is not in descending order of normalized open interest when a
  record has a null \<open>OI\<close>. The key of line 490 is NaN for that record (NaN is true, so
  \<open>or 0\<close> keeps it), every comparison with NaN is false, and the sort returns the records
  in the order they came: the open interests 500, null, 900.
\<close>

theorem C6_null_oi_not_descending:
  "oi_sort_key parse_digits [(''strikePrice'', PNum 21350), (''optionType'', PStr ''CE''),
                             (''OI'', PNone)] = PNaN \<and>
   map_sum id (map (\<lambda>x. dget x ''OI''))
       (oi_sorted parse_digits example_table example_nearest null_oi) =
     Inr [PNum 500, PNone, PNum 900]"
  by code_simp


section \<open>The buckets of the classifier\<close>

lemma set_add_unique: "set (add_unique k xs) = insert k (set xs)"
  by (auto simp: add_unique_def)

lemma distinct_add_unique: "distinct xs \<Longrightarrow> distinct (add_unique k xs)"
  by (simp add: add_unique_def)

text \<open>A bucket that each turn of a loop extends by the key of a qualifying row.\<close>

lemma fold_bucket_set:
  assumes "\<And>a r. B (step a r) = (if P r then add_unique (k r) (B a) else B a)"
  shows "set (B (foldl step a rows)) = set (B a) \<union> k ` {r \<in> set rows. P r}"
proof (induction rows arbitrary: a)
  case Nil
  then show ?case by simp
next
  case (Cons r rows)
  show ?case
    by (simp add: Cons assms set_add_unique) blast
qed

lemma fold_bucket_distinct:
  assumes "\<And>a r. B (step a r) = (if P r then add_unique (k r) (B a) else B a)"
  shows "distinct (B a) \<Longrightarrow> distinct (B (foldl step a rows))"
proof (induction rows arbitrary: a)
  case Nil
  then show ?case by simp
next
  case (Cons r rows)
  then show ?case
    by (simp add: assms distinct_add_unique)
qed

lemma step_momentum:
  "momentum (alert_step parse fmt a r) =
     (if momentum_rule parse r then add_unique (alert_key fmt r) (momentum a) else momentum a)"
  by (simp add: alert_step_def momentum_rule_def Let_def)

lemma step_unwinding:
  "unwinding (alert_step parse fmt a r) =
     (if unwinding_rule parse r then add_unique (alert_key fmt r) (unwinding a) else unwinding a)"
  by (simp add: alert_step_def unwinding_rule_def Let_def)

lemma step_freshLongs:
  "freshLongs (alert_step parse fmt a r) =
     (if freshLongs_rule parse r then add_unique (alert_key fmt r) (freshLongs a) else freshLongs a)"
  by (simp add: alert_step_def freshLongs_rule_def Let_def)

lemma step_buyerDominance:
  "buyerDominance (alert_step parse fmt a r) =
     (if buyerDominance_rule parse r then add_unique (alert_key fmt r) (buyerDominance a)
      else buyerDominance a)"
  by (simp add: alert_step_def buyerDominance_rule_def Let_def)

lemma step_sellerDominance:
  "sellerDominance (alert_step parse fmt a r) =
     (if sellerDominance_rule parse r then add_unique (alert_key fmt r) (sellerDominance a)
      else sellerDominance a)"
  by (simp add: alert_step_def sellerDominance_rule_def Let_def)

lemma narratives_buckets:
  "momentum (narratives parse v initial_alerts) = []"
  "unwinding (narratives parse v initial_alerts) = []"
  "freshLongs (narratives parse v initial_alerts) = []"
  "buyerDominance (narratives parse v initial_alerts) = []"
  "sellerDominance (narratives parse v initial_alerts) = []"
  by (simp_all add: narratives_def initial_alerts_def Let_def)

lemma bucket_momentum:
  "set (momentum (generate_alerts parse fmt v rows)) = alert_key fmt ` {r \<in> set rows. momentum_rule parse r}"
  "sorted (momentum (generate_alerts parse fmt v rows))"
  "distinct (momentum (generate_alerts parse fmt v rows))"
  using fold_bucket_set [of momentum "alert_step parse fmt" "momentum_rule parse" "alert_key fmt", OF step_momentum]
        fold_bucket_distinct [of momentum "alert_step parse fmt" "momentum_rule parse" "alert_key fmt", OF step_momentum]
  by (simp_all add: generate_alerts_def Let_def narratives_buckets)

lemma bucket_unwinding:
  "set (unwinding (generate_alerts parse fmt v rows)) = alert_key fmt ` {r \<in> set rows. unwinding_rule parse r}"
  "sorted (unwinding (generate_alerts parse fmt v rows))"
  "distinct (unwinding (generate_alerts parse fmt v rows))"
  using fold_bucket_set [of unwinding "alert_step parse fmt" "unwinding_rule parse" "alert_key fmt", OF step_unwinding]
        fold_bucket_distinct [of unwinding "alert_step parse fmt" "unwinding_rule parse" "alert_key fmt", OF step_unwinding]
  by (simp_all add: generate_alerts_def Let_def narratives_buckets)

lemma bucket_freshLongs:
  "set (freshLongs (generate_alerts parse fmt v rows)) = alert_key fmt ` {r \<in> set rows. freshLongs_rule parse r}"
  "sorted (freshLongs (generate_alerts parse fmt v rows))"
  "distinct (freshLongs (generate_alerts parse fmt v rows))"
  using fold_bucket_set [of freshLongs "alert_step parse fmt" "freshLongs_rule parse" "alert_key fmt", OF step_freshLongs]
        fold_bucket_distinct [of freshLongs "alert_step parse fmt" "freshLongs_rule parse" "alert_key fmt", OF step_freshLongs]
  by (simp_all add: generate_alerts_def Let_def narratives_buckets)

lemma bucket_buyerDominance:
  "set (buyerDominance (generate_alerts parse fmt v rows)) = alert_key fmt ` {r \<in> set rows. buyerDominance_rule parse r}"
  "sorted (buyerDominance (generate_alerts parse fmt v rows))"
  "distinct (buyerDominance (generate_alerts parse fmt v rows))"
  using fold_bucket_set [of buyerDominance "alert_step parse fmt" "buyerDominance_rule parse" "alert_key fmt", OF step_buyerDominance]
        fold_bucket_distinct [of buyerDominance "alert_step parse fmt" "buyerDominance_rule parse" "alert_key fmt", OF step_buyerDominance]
  by (simp_all add: generate_alerts_def Let_def narratives_buckets)

lemma bucket_sellerDominance:
  "set (sellerDominance (generate_alerts parse fmt v rows)) = alert_key fmt ` {r \<in> set rows. sellerDominance_rule parse r}"
  "sorted (sellerDominance (generate_alerts parse fmt v rows))"
  "distinct (sellerDominance (generate_alerts parse fmt v rows))"
  using fold_bucket_set [of sellerDominance "alert_step parse fmt" "sellerDominance_rule parse" "alert_key fmt", OF step_sellerDominance]
        fold_bucket_distinct [of sellerDominance "alert_step parse fmt" "sellerDominance_rule parse" "alert_key fmt", OF step_sellerDominance]
  by (simp_all add: generate_alerts_def Let_def narratives_buckets)


text \<open>
  C4, as stated, fails: bucket membership is decided per key, not per row. Two rows of
  strike 21000 CE have percent changes 25 and 5; the key of the second row is in
  \<open>momentum\<close> although its own percent change is not above 20.
\<close>

theorem C4_duplicate_key_counterexample:
  "alert_key format_value row_slow
     \<in> set (momentum (generate_alerts parse_digits format_value [] [row_fast, row_slow])) \<and>
   \<not> \<bar>numeric_col parse_digits (pchange row_slow)\<bar> > 20"
proof -
  have k: "alert_key format_value row_slow = alert_key format_value row_fast"
    by (simp add: alert_key_def row_fast_def row_slow_def)
  have "momentum_rule parse_digits row_fast"
    by (simp add: momentum_rule_def row_fast_def numeric_col_def)
  then have "alert_key format_value row_fast
      \<in> alert_key format_value ` {r \<in> set [row_fast, row_slow]. momentum_rule parse_digits r}"
    by (intro imageI) simp
  moreover have "\<not> \<bar>numeric_col parse_digits (pchange row_slow)\<bar> > 20"
    by (simp add: row_slow_def numeric_col_def)
  ultimately show ?thesis
    by (simp only: k bucket_momentum simp_thms)
qed

text \<open>
  C4, amended: a key is in a bucket if and only if some row of the table with that key
  (and with a strike and a type) satisfies the rule of the bucket: \<open>momentum\<close>,
  abs(percentChange) > 20; \<open>unwinding\<close>, openInterest > 50000 and changeInOpenInterest
  < -10000; \<open>freshLongs\<close>, not the rule of unwinding, and openInterest > 50000 and
  changeInOpenInterest > 10000; \<open>buyerDominance\<close>, totalSellQuantity > 0 and
  totalBuyQuantity > 1.5 * totalSellQuantity and totalBuyQuantity > 50000;
  \<open>sellerDominance\<close>, not the rule of buyerDominance, and totalBuyQuantity > 0 and
  totalSellQuantity > 1.5 * totalBuyQuantity and totalSellQuantity > 50000. No single row
  satisfies both the rule of unwinding and of freshLongs, or both dominance rules. Each
  bucket is sorted and without duplicates.
\<close>

theorem C4_bucket_membership:
  "(K \<in> set (momentum (generate_alerts parse fmt v rows)) \<longleftrightarrow>
      (\<exists>r \<in> set rows. alert_key fmt r = K \<and> momentum_rule parse r)) \<and>
   (K \<in> set (unwinding (generate_alerts parse fmt v rows)) \<longleftrightarrow>
      (\<exists>r \<in> set rows. alert_key fmt r = K \<and> unwinding_rule parse r)) \<and>
   (K \<in> set (freshLongs (generate_alerts parse fmt v rows)) \<longleftrightarrow>
      (\<exists>r \<in> set rows. alert_key fmt r = K \<and> freshLongs_rule parse r)) \<and>
   (K \<in> set (buyerDominance (generate_alerts parse fmt v rows)) \<longleftrightarrow>
      (\<exists>r \<in> set rows. alert_key fmt r = K \<and> buyerDominance_rule parse r)) \<and>
   (K \<in> set (sellerDominance (generate_alerts parse fmt v rows)) \<longleftrightarrow>
      (\<exists>r \<in> set rows. alert_key fmt r = K \<and> sellerDominance_rule parse r)) \<and>
   \<not> (unwinding_rule parse r \<and> freshLongs_rule parse r) \<and>
   \<not> (buyerDominance_rule parse r \<and> sellerDominance_rule parse r) \<and>
   sorted (momentum (generate_alerts parse fmt v rows)) \<and>
   distinct (momentum (generate_alerts parse fmt v rows)) \<and>
   sorted (unwinding (generate_alerts parse fmt v rows)) \<and>
   distinct (unwinding (generate_alerts parse fmt v rows)) \<and>
   sorted (freshLongs (generate_alerts parse fmt v rows)) \<and>
   distinct (freshLongs (generate_alerts parse fmt v rows)) \<and>
   sorted (buyerDominance (generate_alerts parse fmt v rows)) \<and>
   distinct (buyerDominance (generate_alerts parse fmt v rows)) \<and>
   sorted (sellerDominance (generate_alerts parse fmt v rows)) \<and>
   distinct (sellerDominance (generate_alerts parse fmt v rows))"
proof -
  have "\<not> (unwinding_rule parse r \<and> freshLongs_rule parse r)"
    by (simp add: unwinding_rule_def freshLongs_rule_def)
  moreover have "\<not> (buyerDominance_rule parse r \<and> sellerDominance_rule parse r)"
    by (simp add: buyerDominance_rule_def sellerDominance_rule_def)
  moreover have "K \<in> set (momentum (generate_alerts parse fmt v rows)) \<longleftrightarrow>
      (\<exists>r \<in> set rows. alert_key fmt r = K \<and> momentum_rule parse r)"
    unfolding bucket_momentum by blast
  moreover have "K \<in> set (unwinding (generate_alerts parse fmt v rows)) \<longleftrightarrow>
      (\<exists>r \<in> set rows. alert_key fmt r = K \<and> unwinding_rule parse r)"
    unfolding bucket_unwinding by blast
  moreover have "K \<in> set (freshLongs (generate_alerts parse fmt v rows)) \<longleftrightarrow>
      (\<exists>r \<in> set rows. alert_key fmt r = K \<and> freshLongs_rule parse r)"
    unfolding bucket_freshLongs by blast
  moreover have "K \<in> set (buyerDominance (generate_alerts parse fmt v rows)) \<longleftrightarrow>
      (\<exists>r \<in> set rows. alert_key fmt r = K \<and> buyerDominance_rule parse r)"
    unfolding bucket_buyerDominance by blast
  moreover have "K \<in> set (sellerDominance (generate_alerts parse fmt v rows)) \<longleftrightarrow>
      (\<exists>r \<in> set rows. alert_key fmt r = K \<and> sellerDominance_rule parse r)"
    unfolding bucket_sellerDominance by blast
  ultimately show ?thesis
    by (simp only: bucket_momentum(2,3) bucket_unwinding(2,3) bucket_freshLongs(2,3)
        bucket_buyerDominance(2,3) bucket_sellerDominance(2,3) simp_thms)
qed

text \<open>
  The examples of the specification: percent changes 25 and -25 put the keys in
  \<open>momentum\<close>; open interest 60000 with a change of -12000 puts the key in \<open>unwinding\<close>
  and not in \<open>freshLongs\<close>.
\<close>

theorem C4_bucket_membership_witness:
  "''21000 CE'' \<in> set (momentum (generate_alerts parse_digits format_value [] [row_unwinding, row_fast, row_slow])) \<and>
   ''21200 PE'' \<in> set (momentum (generate_alerts parse_digits format_value [] [row_unwinding, row_fast, row_slow])) \<and>
   ''21200 PE'' \<in> set (unwinding (generate_alerts parse_digits format_value [] [row_unwinding, row_fast, row_slow])) \<and>
   ''21200 PE'' \<notin> set (freshLongs (generate_alerts parse_digits format_value [] [row_unwinding, row_fast, row_slow]))"
proof -
  have k1: "alert_key format_value row_unwinding = ''21200 PE''"
    by (simp add: alert_key_def row_unwinding_def)
  have k2: "alert_key format_value row_fast = ''21000 CE''"
    by (simp add: alert_key_def row_fast_def)
  have k3: "alert_key format_value row_slow = ''21000 CE''"
    by (simp add: alert_key_def row_slow_def)
  have r1: "momentum_rule parse_digits row_unwinding" "unwinding_rule parse_digits row_unwinding"
    "\<not> freshLongs_rule parse_digits row_unwinding"
    by (simp_all add: momentum_rule_def unwinding_rule_def freshLongs_rule_def row_unwinding_def
        numeric_col_def)
  have r2: "momentum_rule parse_digits row_fast" "\<not> freshLongs_rule parse_digits row_fast"
    by (simp_all add: momentum_rule_def freshLongs_rule_def row_fast_def numeric_col_def)
  have r3: "\<not> freshLongs_rule parse_digits row_slow"
    by (simp add: freshLongs_rule_def row_slow_def numeric_col_def)
  note a = C4_bucket_membership [of "''21000 CE''" parse_digits format_value "[]"
      "[row_unwinding, row_fast, row_slow]" row_unwinding]
  note b = C4_bucket_membership [of "''21200 PE''" parse_digits format_value "[]"
      "[row_unwinding, row_fast, row_slow]" row_unwinding]
  have "''21000 CE'' \<in> set (momentum (generate_alerts parse_digits format_value [] [row_unwinding, row_fast, row_slow]))"
    using a k2 r2 by simp
  moreover have "''21200 PE'' \<in> set (momentum (generate_alerts parse_digits format_value [] [row_unwinding, row_fast, row_slow]))"
    using b k1 r1 by simp
  moreover have "''21200 PE'' \<in> set (unwinding (generate_alerts parse_digits format_value [] [row_unwinding, row_fast, row_slow]))"
    using b k1 r1 by simp
  moreover have "''21200 PE'' \<notin> set (freshLongs (generate_alerts parse_digits format_value [] [row_unwinding, row_fast, row_slow]))"
    using b k1 k2 k3 r1 r2 r3 by simp
  ultimately show ?thesis by simp
qed

section \<open>The classifier on an empty options table\<close>

lemma step_narratives:
  "fairValuation (alert_step parse fmt a r) = fairValuation a"
  "marketBreadth (alert_step parse fmt a r) = marketBreadth a"
  "buyingInterest (alert_step parse fmt a r) = buyingInterest a"
  by (simp_all add: alert_step_def Let_def)

lemma fold_narratives:
  "fairValuation (foldl (alert_step parse fmt) a rows) = fairValuation a \<and>
   marketBreadth (foldl (alert_step parse fmt) a rows) = marketBreadth a \<and>
   buyingInterest (foldl (alert_step parse fmt) a rows) = buyingInterest a"
  by (induction rows arbitrary: a) (simp_all add: step_narratives)

lemma narratives_of_table:
  "fairValuation (generate_alerts parse fmt v rows) = fairValuation (narratives parse v initial_alerts)"
  "marketBreadth (generate_alerts parse fmt v rows) = marketBreadth (narratives parse v initial_alerts)"
  "buyingInterest (generate_alerts parse fmt v rows) = buyingInterest (narratives parse v initial_alerts)"
  by (simp_all add: generate_alerts_def Let_def fold_narratives)

text \<open>
  C7, as stated, fails: with an empty options table and an index row of PE ratio 30, the
  valuation narrative is the overvaluation text, not an "unavailable" text.
\<close>

theorem C7_narrative_counterexample:
  "fairValuation (generate_alerts parse_digits format_value stats_high_pe []) =
     ''PE ratio is high, suggesting overvaluation.'' \<and>
   momentum (generate_alerts parse_digits format_value stats_high_pe []) = []"
  by (simp add: narratives_of_table generate_alerts_def narratives_def stats_high_pe_def
      df_empty_def stat_def dict_get_def numeric_col_def initial_alerts_def Let_def)

text \<open>
  C7, amended: on an empty options table the classifier returns (it has no raising
  branch) with all five list buckets empty. The three narratives do not depend on the
  options table: they are those of the index-statistics table alone, and they are the
  three "unavailable" texts when the index-statistics table is empty.
\<close>

theorem C7_empty_options:
  "momentum (generate_alerts parse fmt v []) = [] \<and>
   unwinding (generate_alerts parse fmt v []) = [] \<and>
   freshLongs (generate_alerts parse fmt v []) = [] \<and>
   buyerDominance (generate_alerts parse fmt v []) = [] \<and>
   sellerDominance (generate_alerts parse fmt v []) = [] \<and>
   fairValuation (generate_alerts parse fmt v []) = fairValuation (generate_alerts parse fmt v rows) \<and>
   marketBreadth (generate_alerts parse fmt v []) = marketBreadth (generate_alerts parse fmt v rows) \<and>
   buyingInterest (generate_alerts parse fmt v []) = buyingInterest (generate_alerts parse fmt v rows) \<and>
   (df_empty v \<longrightarrow>
      fairValuation (generate_alerts parse fmt v []) = ''Valuation data unavailable.'' \<and>
      marketBreadth (generate_alerts parse fmt v []) = ''Market breadth data unavailable.'' \<and>
      buyingInterest (generate_alerts parse fmt v []) = ''Buying interest data unavailable.'')"
proof -
  have "momentum (generate_alerts parse fmt v []) = []"
       "unwinding (generate_alerts parse fmt v []) = []"
       "freshLongs (generate_alerts parse fmt v []) = []"
       "buyerDominance (generate_alerts parse fmt v []) = []"
       "sellerDominance (generate_alerts parse fmt v []) = []"
    by (simp_all add: generate_alerts_def narratives_buckets)
  moreover have "df_empty v \<Longrightarrow>
      fairValuation (narratives parse v initial_alerts) = ''Valuation data unavailable.'' \<and>
      marketBreadth (narratives parse v initial_alerts) = ''Market breadth data unavailable.'' \<and>
      buyingInterest (narratives parse v initial_alerts) = ''Buying interest data unavailable.''"
    by (simp add: narratives_def initial_alerts_def)
  ultimately show ?thesis
    by (simp add: narratives_of_table)
qed

theorem C7_empty_options_witness:
  "momentum (generate_alerts parse_digits format_value [] []) = [] \<and>
   fairValuation (generate_alerts parse_digits format_value [] []) = ''Valuation data unavailable.'' \<and>
   marketBreadth (generate_alerts parse_digits format_value [] []) = ''Market breadth data unavailable.'' \<and>
   buyingInterest (generate_alerts parse_digits format_value [] []) = ''Buying interest data unavailable.''"
proof -
  have "df_empty []" by (simp add: df_empty_def)
  with C7_empty_options [of parse_digits format_value "[]" "[]"] show ?thesis by simp
qed


section \<open>The merger mutates neither its input nor the lookup table\<close>

lemma set_item_last:
  "set_item (length h) k v (s\<lparr>heap := h @ [d]\<rparr>) = s\<lparr>heap := h @ [AList.update k v d]\<rparr>"
  by (simp add: set_item_def)

lemma update_items_last:
  "update_items (length h) kvs (s\<lparr>heap := h @ [d]\<rparr>) = s\<lparr>heap := h @ [dict_update d kvs]\<rparr>"
  by (simp add: update_items_def)

lemma copy_and_override_pure:
  assumes "contract < length (heap s)"
  shows "copy_and_override parse nearest contract s =
           (length (heap s),
            s\<lparr>heap := heap s @
               [case lookup_detail (table s) nearest (heap s ! contract) of
                  None \<Rightarrow> heap s ! contract
                | Some detail \<Rightarrow> override parse detail (heap s ! contract)]\<rparr>)"
  using assms
  by (simp add: copy_and_override_def alloc_dict_def Let_def nth_append update_items_last
      override_def split: option.splits)

lemma finish_st_pure:
  "finish_st parse nearest (length h) (s\<lparr>heap := h @ [d]\<rparr>) =
     s\<lparr>heap := h @ [finish parse nearest d]\<rparr>"
  by (simp add: finish_st_def finish_def Let_def set_item_last)

lemma enrich_one_st_pure:
  assumes "contract < length (heap s)"
  shows "\<exists>d. enrich_one_st parse nearest contract s =
               (map_sum id (\<lambda>mc. length (heap s)) (enrich_one parse (table s) nearest (heap s ! contract)),
                s\<lparr>heap := heap s @ [d]\<rparr>) \<and>
             (\<forall>mc. enrich_one parse (table s) nearest (heap s ! contract) = Inr mc \<longrightarrow> d = mc)"
proof (cases "dget (heap s ! contract) ''optionType''")
  case (PStr str)
  then show ?thesis
    by (simp add: enrich_one_st_def Let_def copy_and_override_pure [OF assms] set_item_last
        finish_st_pure enrich_one_str)
next
  case PNone
  then show ?thesis
    by (simp add: enrich_one_st_def Let_def copy_and_override_pure [OF assms] enrich_one_not_str)
      blast
next
  case (PNum r)
  then show ?thesis
    by (simp add: enrich_one_st_def Let_def copy_and_override_pure [OF assms] enrich_one_not_str)
      blast
next
  case PNaN
  then show ?thesis
    by (simp add: enrich_one_st_def Let_def copy_and_override_pure [OF assms] enrich_one_not_str)
      blast
qed

lemma enrich_contracts_st_pure:
  assumes "list_all (\<lambda>a. a < length (heap s)) refs"
  shows "\<exists>ds. snd (enrich_contracts_st parse nearest refs s) = s\<lparr>heap := heap s @ ds\<rparr> \<and>
              map_sum id (map (nth (heap s @ ds))) (fst (enrich_contracts_st parse nearest refs s)) =
                enrich_contracts parse (table s) nearest (map (nth (heap s)) refs)"
  using assms
proof (induction refs arbitrary: s)
  case Nil
  have "s = s\<lparr>heap := heap s @ []\<rparr>" by simp
  then show ?case by (metis append_Nil2 enrich_contracts.simps(1) enrich_contracts_st.simps(1)
        fst_conv list.simps(8) map_sum.simps(2) snd_conv)
next
  case (Cons c cs)
  then have c: "c < length (heap s)" and cs: "list_all (\<lambda>a. a < length (heap s)) cs"
    by simp_all
  from enrich_one_st_pure [OF c, of parse nearest] obtain d where
    one: "enrich_one_st parse nearest c s =
            (map_sum id (\<lambda>mc. length (heap s)) (enrich_one parse (table s) nearest (heap s ! c)),
             s\<lparr>heap := heap s @ [d]\<rparr>)"
    and d: "\<forall>mc. enrich_one parse (table s) nearest (heap s ! c) = Inr mc \<longrightarrow> d = mc"
    by blast
  show ?case
  proof (cases "enrich_one parse (table s) nearest (heap s ! c)")
    case (Inl e)
    with one show ?thesis
      by (auto intro!: exI [of _ "[d]"])
  next
    case (Inr mc)
    with d have dm: "d = mc" by simp
    define s' where "s' = s\<lparr>heap := heap s @ [d]\<rparr>"
    have cs': "list_all (\<lambda>a. a < length (heap s')) cs"
      using cs by (auto simp: s'_def list_all_iff)
    have same: "map (nth (heap s')) cs = map (nth (heap s)) cs"
      using cs by (simp add: s'_def list_all_iff nth_append)
    from Cons.IH [OF cs'] obtain ds where
      st: "snd (enrich_contracts_st parse nearest cs s') = s'\<lparr>heap := heap s' @ ds\<rparr>"
      and res: "map_sum id (map (nth (heap s' @ ds))) (fst (enrich_contracts_st parse nearest cs s')) =
                enrich_contracts parse (table s') nearest (map (nth (heap s')) cs)"
      by blast
    define R where "R = enrich_contracts_st parse nearest cs s'"
    have res': "map_sum id (map (nth (heap s @ d # ds))) (fst R) =
                enrich_contracts parse (table s) nearest (map (nth (heap s)) cs)"
      using res unfolding same by (simp add: s'_def R_def)
    have st': "snd R = s\<lparr>heap := heap s @ d # ds\<rparr>"
      using st by (simp add: s'_def R_def)
    have hd: "(heap s @ d # ds) ! length (heap s) = d"
      by (simp add: nth_append)
    have run: "enrich_contracts_st parse nearest (c # cs) s =
                 (map_sum id (Cons (length (heap s))) (fst R), snd R)"
      by (simp add: one Inr s'_def [symmetric] R_def [symmetric] split: prod.splits sum.splits)
    have main: "map_sum id (map (nth (heap s @ d # ds))) (map_sum id (Cons (length (heap s))) (fst R)) =
            enrich_contracts parse (table s) nearest (map (nth (heap s)) (c # cs))"
    proof (cases "fst R")
      case (Inl e)
      with res' have "enrich_contracts parse (table s) nearest (map (nth (heap s)) cs) = Inl e"
        by simp
      then show ?thesis
        using \<open>enrich_one parse (table s) nearest (heap s ! c) = Inr mc\<close> Inl
        by simp
    next
      case (Inr b)
      with res' have "enrich_contracts parse (table s) nearest (map (nth (heap s)) cs) =
                        Inr (map (nth (heap s @ d # ds)) b)"
        by simp
      then show ?thesis
        using \<open>enrich_one parse (table s) nearest (heap s ! c) = Inr mc\<close> Inr hd dm
        by simp
    qed
    show ?thesis
      by (intro exI [of _ "d # ds"] conjI) (simp_all only: run st' fst_conv snd_conv main)
  qed
qed

text \<open>
  C9. The merger, run on a store in which the summary list holds addresses of dict
  objects, writes to the copies it allocates only: after a run, and after a second run,
  the lookup table is unchanged and every object the store had before is unchanged. The
  dicts a run returns are those of the pure function \<open>enrich_contracts\<close> on the contents
  of the input dicts, so the second run returns dicts equal to those of the first (or
  raises the same exception).
\<close>

theorem C9_merger_idempotent:
  assumes "list_all (\<lambda>a. a < length (heap s)) refs"
  shows "let run1 = enrich_contracts_st parse nearest refs s;
             run2 = enrich_contracts_st parse nearest refs (snd run1)
         in table (snd run1) = table s \<and>
            take (length (heap s)) (heap (snd run1)) = heap s \<and>
            table (snd run2) = table s \<and>
            take (length (heap s)) (heap (snd run2)) = heap s \<and>
            map_sum id (map (nth (heap (snd run1)))) (fst run1) =
              enrich_contracts parse (table s) nearest (map (nth (heap s)) refs) \<and>
            map_sum id (map (nth (heap (snd run2)))) (fst run2) =
              map_sum id (map (nth (heap (snd run1)))) (fst run1)"
proof -
  define run1 where "run1 = enrich_contracts_st parse nearest refs s"
  from enrich_contracts_st_pure [OF assms, of parse nearest] obtain ds1 where
    s1: "snd run1 = s\<lparr>heap := heap s @ ds1\<rparr>"
    and r1: "map_sum id (map (nth (heap s @ ds1))) (fst run1) =
               enrich_contracts parse (table s) nearest (map (nth (heap s)) refs)"
    unfolding run1_def by blast
  define run2 where "run2 = enrich_contracts_st parse nearest refs (snd run1)"
  have valid: "list_all (\<lambda>a. a < length (heap (snd run1))) refs"
    using assms by (auto simp: s1 list_all_iff)
  have same: "map (nth (heap (snd run1))) refs = map (nth (heap s)) refs"
    using assms by (simp add: s1 list_all_iff nth_append)
  from enrich_contracts_st_pure [OF valid, of parse nearest] obtain ds2 where
    s2: "snd run2 = (snd run1)\<lparr>heap := heap (snd run1) @ ds2\<rparr>"
    and r2: "map_sum id (map (nth (heap (snd run1) @ ds2))) (fst run2) =
               enrich_contracts parse (table (snd run1)) nearest (map (nth (heap (snd run1))) refs)"
    unfolding run2_def by blast
  have t1: "table (snd run1) = table s" by (simp add: s1)
  have h1: "heap (snd run1) = heap s @ ds1" by (simp add: s1)
  have t2: "table (snd run2) = table s" by (simp add: s2 s1)
  have h2: "heap (snd run2) = heap s @ ds1 @ ds2" by (simp add: s2 s1)
  have o1: "map_sum id (map (nth (heap (snd run1)))) (fst run1) =
              enrich_contracts parse (table s) nearest (map (nth (heap s)) refs)"
    using r1 by (simp only: h1)
  have o2: "map_sum id (map (nth (heap (snd run2)))) (fst run2) =
              enrich_contracts parse (table s) nearest (map (nth (heap s)) refs)"
    using r2 unfolding same t1 by (simp only: h2 h1 append_assoc)
  show ?thesis
    unfolding Let_def run1_def [symmetric] run2_def [symmetric]
    by (simp add: t1 t2 h1 h2 o1 [unfolded h1] o2 [unfolded h2])
qed

text \<open>
  On the store of the example, two runs allocate the objects 2, 3 and 4, 5; the objects 0
  and 1 and the table are as before, and both runs return the same dicts.
\<close>

theorem C9_merger_idempotent_witness:
  "fst (enrich_contracts_st parse_digits example_nearest [0, 1] example_state) = Inr [2, 3] \<and>
   (let run1 = enrich_contracts_st parse_digits example_nearest [0, 1] example_state;
        run2 = enrich_contracts_st parse_digits example_nearest [0, 1] (snd run1)
    in table (snd run2) = table example_state \<and>
       take (length (heap example_state)) (heap (snd run2)) = heap example_state \<and>
       map_sum id (map (nth (heap (snd run2)))) (fst run2) =
         map_sum id (map (nth (heap (snd run1)))) (fst run1))"
proof -
  have a: "list_all (\<lambda>a. a < length (heap example_state)) [0, 1]"
    by (simp add: example_state_def)
  have b: "fst (enrich_contracts_st parse_digits example_nearest [0, 1] example_state) = Inr [2, 3]"
    by code_simp
  from C9_merger_idempotent [OF a, of parse_digits example_nearest] b
  show ?thesis by (simp add: Let_def)
qed


section \<open>The summary of the insider disclosures\<close>

text \<open>
  C10, as stated, fails on its last clause: a transaction list that is not empty can
  still make an empty frame. For the list of one record without fields, \<open>df.empty\<close> is
  true (the frame has no column), and the summary holds \<open>totalDisclosures = 0\<close> alone.
\<close>

theorem C10_fieldless_record_counterexample:
  "[[]] \<noteq> ([] :: pydict list) \<and>
   get_corporates_pit sample_analyse [] [[]] =
     Inr \<lparr>corporatesPIT = [], acqNameList = [], summary = [(''totalDisclosures'', SNum 0)]\<rparr>"
  by (simp add: get_corporates_pit_def df_empty_def)

text \<open>
  C10, amended: when the frame of the transaction list is empty (the list is empty, or no
  record has a field), the assembler returns an empty \<open>corporatesPIT\<close> list and a
  summary that holds \<open>totalDisclosures = 0\<close> and nothing else. When the frame is not
  empty and the aggregation raises nothing, the summary holds \<open>latestDisclosure\<close>,
  \<open>totalDisclosures\<close> (the number of records), \<open>buyValueTotal\<close>, \<open>sellValueTotal\<close> and
  \<open>companySummary\<close>.
\<close>

theorem C10_summary_fields:
  "(df_empty records \<longrightarrow>
      get_corporates_pit analyse acq records =
        Inr \<lparr>corporatesPIT = [], acqNameList = acq, summary = [(''totalDisclosures'', SNum 0)]\<rparr>) \<and>
   (\<not> df_empty records \<longrightarrow>
      (\<forall>r. get_corporates_pit analyse acq records = Inr r \<longrightarrow>
         map fst (summary r) =
           [''latestDisclosure'', ''totalDisclosures'', ''buyValueTotal'', ''sellValueTotal'',
            ''companySummary''] \<and>
         map_of (summary r) ''totalDisclosures'' = Some (SNum (of_nat (length records)))))"
  by (auto simp: get_corporates_pit_def split: sum.splits)

theorem C10_summary_fields_witness:
  "get_corporates_pit sample_analyse [] [] =
     Inr \<lparr>corporatesPIT = [], acqNameList = [], summary = [(''totalDisclosures'', SNum 0)]\<rparr> \<and>
   (\<exists>r. get_corporates_pit sample_analyse [] [sample_disclosure] = Inr r \<and>
        map fst (summary r) =
          [''latestDisclosure'', ''totalDisclosures'', ''buyValueTotal'', ''sellValueTotal'',
           ''companySummary''])"
proof -
  have e: "df_empty []" by (simp add: df_empty_def)
  have n: "\<not> df_empty [sample_disclosure]"
    by (simp add: df_empty_def sample_disclosure_def)
  have "\<exists>r. get_corporates_pit sample_analyse [] [sample_disclosure] = Inr r"
    using n by (simp add: get_corporates_pit_def sample_analyse_def)
  then obtain r where r: "get_corporates_pit sample_analyse [] [sample_disclosure] = Inr r" ..
  note empty = C10_summary_fields [of "[]" sample_analyse "[]", THEN conjunct1, rule_format, OF e]
  note full = C10_summary_fields [of "[sample_disclosure]" sample_analyse "[]", THEN conjunct2,
      rule_format, OF n r, THEN conjunct1]
  show ?thesis
    by (intro conjI exI [of _ r]) (rule empty r full)+
qed

end
